theory Spec2Isabelle
  imports Complex_Main
begin

section \<open>Numbers\<close>

text \<open>
  The program computes with numpy and Python floats. A float is modelled as a real number
  or one of the three special values of IEEE arithmetic; rounding and overflow are not
  modelled, and a zero is taken to be positive. The special values arise in the program
  where a division has a zero divisor and where pandas has no data to average. In the
  program rounding can also turn a quadratic form that is zero or nearly zero into a
  negative number, and a sum of very large numbers into an infinity; the statements about
  the metrics are therefore made for the values that come out as real numbers, or are
  such that they hold whatever the rounding.
\<close>

datatype fval = Fin real | PInf | NInf | NaN

fun fneg :: "fval \<Rightarrow> fval" where
  "fneg (Fin a) = Fin (- a)"
| "fneg PInf = NInf"
| "fneg NInf = PInf"
| "fneg NaN = NaN"

fun fadd :: "fval \<Rightarrow> fval \<Rightarrow> fval" where
  "fadd (Fin a) (Fin b) = Fin (a + b)"
| "fadd NaN _ = NaN"
| "fadd _ NaN = NaN"
| "fadd PInf NInf = NaN"
| "fadd NInf PInf = NaN"
| "fadd PInf _ = PInf"
| "fadd _ PInf = PInf"
| "fadd NInf _ = NInf"
| "fadd _ NInf = NInf"

definition fsub :: "fval \<Rightarrow> fval \<Rightarrow> fval" where
  "fsub a b = fadd a (fneg b)"

fun fmul :: "fval \<Rightarrow> fval \<Rightarrow> fval" where
  "fmul (Fin a) (Fin b) = Fin (a * b)"
| "fmul NaN _ = NaN"
| "fmul _ NaN = NaN"
| "fmul (Fin a) PInf = (if a = 0 then NaN else if 0 < a then PInf else NInf)"
| "fmul (Fin a) NInf = (if a = 0 then NaN else if 0 < a then NInf else PInf)"
| "fmul PInf (Fin b) = (if b = 0 then NaN else if 0 < b then PInf else NInf)"
| "fmul NInf (Fin b) = (if b = 0 then NaN else if 0 < b then NInf else PInf)"
| "fmul PInf PInf = PInf"
| "fmul PInf NInf = NInf"
| "fmul NInf PInf = NInf"
| "fmul NInf NInf = PInf"

fun fdiv :: "fval \<Rightarrow> fval \<Rightarrow> fval" where
  "fdiv (Fin a) (Fin b) =
     (if b \<noteq> 0 then Fin (a / b)
      else if a = 0 then NaN else if 0 < a then PInf else NInf)"
| "fdiv NaN _ = NaN"
| "fdiv _ NaN = NaN"
| "fdiv (Fin a) _ = Fin 0"
| "fdiv PInf (Fin b) = (if 0 \<le> b then PInf else NInf)"
| "fdiv NInf (Fin b) = (if 0 \<le> b then NInf else PInf)"
| "fdiv _ _ = NaN"

fun np_sqrt :: "fval \<Rightarrow> fval" where
  "np_sqrt (Fin a) = (if a < 0 then NaN else Fin (sqrt a))"
| "np_sqrt PInf = PInf"
| "np_sqrt NInf = NaN"
| "np_sqrt NaN = NaN"

text \<open>The comparisons of floats: every comparison with NaN is false.\<close>

fun fless :: "fval \<Rightarrow> fval \<Rightarrow> bool" where
  "fless (Fin a) (Fin b) = (a < b)"
| "fless NaN _ = False"
| "fless _ NaN = False"
| "fless _ NInf = False"
| "fless PInf _ = False"
| "fless NInf _ = True"
| "fless _ PInf = True"

definition fle :: "fval \<Rightarrow> fval \<Rightarrow> bool" where
  "fle a b = (a \<noteq> NaN \<and> b \<noteq> NaN \<and> \<not> fless b a)"

definition np_sum :: "fval list \<Rightarrow> fval" where
  "np_sum xs = foldl fadd (Fin 0) xs"

text \<open>
  \<open>np.sum\<close> of a pandas Series is the Series' own \<open>sum\<close>, which skips NaN entries.
\<close>

definition np_sum_series :: "fval list \<Rightarrow> fval" where
  "np_sum_series xs = np_sum (filter (\<lambda>v. v \<noteq> NaN) xs)"

section \<open>Errors\<close>

text \<open>The Python exceptions that the modelled code can raise.\<close>

datatype error = ValueError | TypeError | KeyError | ZeroDivisionError

section \<open>Return matrix\<close>

text \<open>
  \<open>returns_df\<close> is a pandas DataFrame of daily returns: one named column per
  instrument, all columns over the same dates. It is built with \<open>dropna()\<close>, so its
  entries are numbers.
\<close>

type_synonym dataframe = "(string \<times> real list) list"

definition nrows :: "dataframe \<Rightarrow> nat" where
  "nrows df = (case df of [] \<Rightarrow> 0 | c # _ \<Rightarrow> length (snd c))"

definition df_wf :: "dataframe \<Rightarrow> bool" where
  "df_wf df = list_all (\<lambda>c. length (snd c) = nrows df) df"

definition mean :: "real list \<Rightarrow> real" where
  "mean xs = sum_list xs / real (length xs)"

text \<open>\<open>returns_df.mean()\<close>: the mean of each column; NaN for a column without rows.\<close>

definition df_mean :: "dataframe \<Rightarrow> fval list" where
  "df_mean df = map (\<lambda>c. if snd c = [] then NaN else Fin (mean (snd c))) df"

text \<open>
  \<open>returns_df.cov()\<close>: the sample covariance of each pair of columns, normalised by
  the number of rows minus one; NaN when there are fewer than two rows.
\<close>

definition cov_entry :: "real list \<Rightarrow> real list \<Rightarrow> fval" where
  "cov_entry a b =
     (if length a < 2 then NaN
      else Fin (sum_list (map2 (\<lambda>x y. (x - mean a) * (y - mean b)) a b)
                  / (real (length a) - 1)))"

definition df_cov :: "dataframe \<Rightarrow> fval list list" where
  "df_cov df = map (\<lambda>a. map (\<lambda>b. cov_entry (snd a) (snd b)) df) df"

text \<open>A matrix times a number, elementwise.\<close>

definition mat_scale :: "fval list list \<Rightarrow> fval \<Rightarrow> fval list list" where
  "mat_scale M c = map (map (\<lambda>v. fmul v c)) M"

text \<open>
  \<open>Series * ndarray\<close> and \<open>np.dot\<close> raise ValueError when the shapes do not fit.
  (numpy would broadcast a single weight over a longer series in the product; the
  \<open>np.dot\<close> that follows raises ValueError for these shapes all the same.) The matrix
  is the covariance matrix of a DataFrame, which without columns is the empty matrix.
\<close>

definition series_mul :: "fval list \<Rightarrow> fval list \<Rightarrow> error + fval list" where
  "series_mul s w =
     (if length s = length w then Inr (map2 fmul s w) else Inl ValueError)"

definition np_dot_vv :: "fval list \<Rightarrow> fval list \<Rightarrow> error + fval" where
  "np_dot_vv u v =
     (if length u = length v then Inr (np_sum (map2 fmul u v)) else Inl ValueError)"

definition np_dot_mv :: "fval list list \<Rightarrow> fval list \<Rightarrow> error + fval list" where
  "np_dot_mv M v =
     (if (if M = [] then v = [] else list_all (\<lambda>row. length row = length v) M)
      then Inr (map (\<lambda>row. np_sum (map2 fmul row v)) M)
      else Inl ValueError)"

section \<open>Portfolio metrics\<close>

text \<open>
  The dictionary that \<open>calculate_portfolio_metrics\<close> returns: annual return and annual
  risk in percent, and the Sharpe ratio against a risk-free rate of 6 percent. A year has
  252 trading days.
\<close>

record metrics =
  return :: fval
  risk :: fval
  sharpe :: fval

definition calculate_portfolio_metrics :: "fval list \<Rightarrow> dataframe \<Rightarrow> error + metrics" where
  "calculate_portfolio_metrics weights returns_df =
     (case series_mul (df_mean returns_df) weights of
        Inl e \<Rightarrow> Inl e
      | Inr weighted \<Rightarrow>
          let portfolio_return = fmul (np_sum_series weighted) (Fin 252) in
          (case np_dot_mv (mat_scale (df_cov returns_df) (Fin 252)) weights of
             Inl e \<Rightarrow> Inl e
           | Inr v \<Rightarrow>
               (case np_dot_vv weights v of
                  Inl e \<Rightarrow> Inl e
                | Inr q \<Rightarrow>
                    let portfolio_std = np_sqrt q;
                        sharpe_ratio = fdiv (fsub portfolio_return (Fin (6 / 100))) portfolio_std
                    in Inr \<lparr>return = fmul portfolio_return (Fin 100),
                            risk = fmul portfolio_std (Fin 100),
                            sharpe = sharpe_ratio\<rparr>)))"

text \<open>
  The formulas of the specification, over the reals: column \<open>i\<close> of the return matrix,
  its mean, the sample covariance of two columns, and the annual return and annual risk in
  percent.
\<close>

definition col :: "dataframe \<Rightarrow> nat \<Rightarrow> real list" where
  "col df i = snd (df ! i)"

definition spec_mean :: "dataframe \<Rightarrow> nat \<Rightarrow> real" where
  "spec_mean R i = (\<Sum>t<nrows R. col R i ! t) / real (nrows R)"


definition spec_annual_return :: "real list \<Rightarrow> dataframe \<Rightarrow> real" where
  "spec_annual_return w R = (\<Sum>i<length R. spec_mean R i * w ! i) * 252 * 100"




section \<open>Constrained optimizer\<close>

text \<open>
  \<open>scipy.optimize.minimize\<close> with method SLSQP is a parameter of the model: it takes
  the objective, the initial guess, the bounds and the constraints, and answers with a
  result that carries \<open>success\<close> and \<open>x\<close>, or raises.
\<close>

record opt_result =
  success :: bool
  x_res :: "fval list"

type_synonym objective = "fval list \<Rightarrow> error + fval"

type_synonym constraint = "string \<times> objective"

type_synonym minimizer =
  "objective \<Rightarrow> fval list \<Rightarrow> (real \<times> real) list \<Rightarrow> constraint list \<Rightarrow> error + opt_result"

definition negative_sharpe :: "dataframe \<Rightarrow> objective" where
  "negative_sharpe returns_df weights =
     (case calculate_portfolio_metrics weights returns_df of
        Inl e \<Rightarrow> Inl e
      | Inr m \<Rightarrow> Inr (fneg (sharpe m)))"

definition portfolio_risk :: "dataframe \<Rightarrow> objective" where
  "portfolio_risk returns_df weights =
     (case calculate_portfolio_metrics weights returns_df of
        Inl e \<Rightarrow> Inl e
      | Inr m \<Rightarrow> Inr (risk m))"

text \<open>\<open>lambda x: np.sum(x) - 1\<close>\<close>

definition sum_minus_one :: objective where
  "sum_minus_one v = Inr (fsub (np_sum v) (Fin 1))"

text \<open>
  The result is \<open>None\<close> when the solver reports no success and for any other
  optimization type. \<open>1/n_assets\<close> raises for a matrix without columns.
\<close>

definition optimize_portfolio :: "minimizer \<Rightarrow> dataframe \<Rightarrow> string \<Rightarrow> error + fval list option" where
  "optimize_portfolio minimize returns_df optimization_type =
     (let n_assets = length returns_df;
          constraints = [(''eq'', sum_minus_one)];
          bounds = replicate n_assets (0, 1)
      in if n_assets = 0 then Inl ZeroDivisionError
         else
           let initial_weights = replicate n_assets (Fin (1 / real n_assets)) in
           if optimization_type = ''sharpe'' then
             (case minimize (negative_sharpe returns_df) initial_weights bounds constraints of
                Inl e \<Rightarrow> Inl e
              | Inr result \<Rightarrow> if success result then Inr (Some (x_res result)) else Inr None)
           else if optimization_type = ''min_risk'' then
             (case minimize (portfolio_risk returns_df) initial_weights bounds constraints of
                Inl e \<Rightarrow> Inl e
              | Inr result \<Rightarrow> if success result then Inr (Some (x_res result)) else Inr None)
           else Inr None)"

section \<open>Efficient frontier\<close>

text \<open>
  numpy's global random generator is a parameter of the model: \<open>np_seed\<close> gives the
  state that \<open>np.random.seed\<close> sets, and \<open>np_random n\<close> draws \<open>n\<close> numbers and
  advances the state.
\<close>

record 's generator =
  np_seed :: "nat \<Rightarrow> 's"
  np_random :: "nat \<Rightarrow> 's \<Rightarrow> real list \<times> 's"

record cloud =
  random_weights :: "fval list list"
  random_returns :: "fval list"
  random_risks :: "fval list"
  random_sharpes :: "fval list"

definition empty_cloud :: cloud where
  "empty_cloud = \<lparr>random_weights = [], random_returns = [], random_risks = [], random_sharpes = []\<rparr>"

text \<open>
  \<open>weights /= np.sum(weights)\<close>, and \<open>weights / np.sum(weights)\<close> for custom
  weights: each weight divided by the sum, the sum and the quotients without rounding.
\<close>

definition normalize_weights :: "fval list \<Rightarrow> fval list" where
  "normalize_weights weights = map (\<lambda>w. fdiv w (np_sum weights)) weights"

text \<open>The loop \<open>for _ in range(1000)\<close>, with the number of rounds left as argument.\<close>

fun random_portfolios ::
  "'s generator \<Rightarrow> dataframe \<Rightarrow> nat \<Rightarrow> nat \<Rightarrow> cloud \<Rightarrow> 's \<Rightarrow> (error + cloud) \<times> 's" where
  "random_portfolios rng returns_df n_assets 0 acc s = (Inr acc, s)"
| "random_portfolios rng returns_df n_assets (Suc k) acc s =
     (let (draw, s') = np_random rng n_assets s;
          weights = normalize_weights (map Fin draw)
      in case calculate_portfolio_metrics weights returns_df of
           Inl e \<Rightarrow> (Inl e, s')
         | Inr m \<Rightarrow>
             random_portfolios rng returns_df n_assets k
               \<lparr>random_weights = random_weights acc @ [weights],
                random_returns = random_returns acc @ [return m],
                random_risks = random_risks acc @ [risk m],
                random_sharpes = random_sharpes acc @ [sharpe m]\<rparr> s')"

text \<open>Python's \<open>min\<close> and \<open>max\<close> of a list: the first element, replaced by each later
  one that compares smaller (greater); an empty list raises.\<close>

definition py_min :: "fval list \<Rightarrow> error + fval" where
  "py_min xs =
     (case xs of
        [] \<Rightarrow> Inl ValueError
      | y # ys \<Rightarrow> Inr (foldl (\<lambda>m v. if fless v m then v else m) y ys))"

definition py_max :: "fval list \<Rightarrow> error + fval" where
  "py_max xs =
     (case xs of
        [] \<Rightarrow> Inl ValueError
      | y # ys \<Rightarrow> Inr (foldl (\<lambda>m v. if fless m v then v else m) y ys))"

text \<open>
  \<open>np.linspace(start, stop, num)\<close>: \<open>num\<close> evenly spaced samples, the last one set to
  \<open>stop\<close>; a negative \<open>num\<close> raises.
\<close>

definition np_linspace :: "fval \<Rightarrow> fval \<Rightarrow> int \<Rightarrow> error + fval list" where
  "np_linspace start stop num =
     (if num < 0 then Inl ValueError
      else
        let n = nat num; delta = fsub stop start in
        if n = 0 then Inr []
        else if n = 1 then Inr [fadd (fmul (Fin 0) delta) start]
        else
          let step = fdiv delta (Fin (real (n - 1))) in
          Inr (map (\<lambda>i. fadd (fmul (Fin (real i)) step) start) [0..<n - 1] @ [stop]))"

definition frontier_constraints :: "dataframe \<Rightarrow> fval \<Rightarrow> constraint list" where
  "frontier_constraints returns_df target_return =
     [(''eq'', sum_minus_one),
      (''eq'', \<lambda>v. case calculate_portfolio_metrics v returns_df of
                      Inl e \<Rightarrow> Inl e
                    | Inr m \<Rightarrow> Inr (fsub (return m) target_return))]"

text \<open>
  The solver call for one target return: minimal risk from equal weights, within the bounds
  and under the two equality constraints.
\<close>

definition solve_target :: "minimizer \<Rightarrow> dataframe \<Rightarrow> fval \<Rightarrow> error + opt_result" where
  "solve_target minimize returns_df target_return =
     (let n_assets = length returns_df in
      if n_assets = 0 then Inl ZeroDivisionError
      else minimize (portfolio_risk returns_df)
             (replicate n_assets (Fin (1 / real n_assets)))
             (replicate n_assets (0, 1))
             (frontier_constraints returns_df target_return))"

text \<open>The loop over the target returns, with \<open>frontier_risks\<close> and
  \<open>frontier_weights\<close> as accumulators.\<close>

fun frontier_curve ::
  "minimizer \<Rightarrow> dataframe \<Rightarrow> fval list \<Rightarrow> fval option list \<times> fval list option list
     \<Rightarrow> error + fval option list \<times> fval list option list" where
  "frontier_curve minimize returns_df [] acc = Inr acc"
| "frontier_curve minimize returns_df (target_return # rest) (frontier_risks, frontier_weights) =
     (case solve_target minimize returns_df target_return of
        Inl e \<Rightarrow> Inl e
      | Inr result \<Rightarrow>
          if success result then
            (case calculate_portfolio_metrics (x_res result) returns_df of
               Inl e \<Rightarrow> Inl e
             | Inr m \<Rightarrow>
                 frontier_curve minimize returns_df rest
                   (frontier_risks @ [Some (risk m)], frontier_weights @ [Some (x_res result)]))
          else
            frontier_curve minimize returns_df rest
              (frontier_risks @ [None], frontier_weights @ [None]))"

record portfolio =
  p_weights :: "fval list"
  p_metrics :: metrics

record frontier_data =
  cloud_returns :: "fval list"
  cloud_risks :: "fval list"
  cloud_sharpes :: "fval list"
  frontier_returns :: "fval list"
  frontier_risks_out :: "fval option list"
  max_sharpe :: portfolio
  min_risk :: portfolio

text \<open>
  Calling \<open>calculate_portfolio_metrics\<close> with \<open>None\<close> for the weights raises;
  otherwise the weights and their metrics make one of the two optimal portfolios of the result.
\<close>

definition metrics_of_result :: "fval list option \<Rightarrow> dataframe \<Rightarrow> error + portfolio" where
  "metrics_of_result weights returns_df =
     (case weights of
        None \<Rightarrow> Inl TypeError
      | Some w \<Rightarrow>
          (case calculate_portfolio_metrics w returns_df of
             Inl e \<Rightarrow> Inl e
           | Inr m \<Rightarrow> Inr \<lparr>p_weights = w, p_metrics = m\<rparr>))"

definition n_portfolios_default :: int where
  "n_portfolios_default = 50"

definition generate_efficient_frontier ::
  "'s generator \<Rightarrow> minimizer \<Rightarrow> dataframe \<Rightarrow> int \<Rightarrow> 's \<Rightarrow> (error + frontier_data) \<times> 's" where
  "generate_efficient_frontier rng minimize returns_df n_portfolios s =
     (let n_assets = length returns_df;
          (r, s') = random_portfolios rng returns_df n_assets 1000 empty_cloud (np_seed rng 42)
      in ((case r of
            Inl e \<Rightarrow> Inl e
          | Inr cl \<Rightarrow>
        (case optimize_portfolio minimize returns_df ''sharpe'' of
            Inl e \<Rightarrow> Inl e
          | Inr max_sharpe_weights \<Rightarrow>
        (case optimize_portfolio minimize returns_df ''min_risk'' of
            Inl e \<Rightarrow> Inl e
          | Inr min_risk_weights \<Rightarrow>
        (case metrics_of_result max_sharpe_weights returns_df of
            Inl e \<Rightarrow> Inl e
          | Inr max_sharpe_metrics \<Rightarrow>
        (case metrics_of_result min_risk_weights returns_df of
            Inl e \<Rightarrow> Inl e
          | Inr min_risk_metrics \<Rightarrow>
        (case py_min (random_returns cl) of
            Inl e \<Rightarrow> Inl e
          | Inr lo \<Rightarrow>
        (case py_max (random_returns cl) of
            Inl e \<Rightarrow> Inl e
          | Inr hi \<Rightarrow>
        (case np_linspace lo hi n_portfolios of
            Inl e \<Rightarrow> Inl e
          | Inr target_returns \<Rightarrow>
        (case frontier_curve minimize returns_df target_returns ([], []) of
            Inl e \<Rightarrow> Inl e
          | Inr (frontier_risks, frontier_weights) \<Rightarrow>
              Inr \<lparr>cloud_returns = random_returns cl,
                   cloud_risks = random_risks cl,
                   cloud_sharpes = random_sharpes cl,
                   frontier_returns = target_returns,
                   frontier_risks_out = frontier_risks,
                   max_sharpe = max_sharpe_metrics,
                   min_risk = min_risk_metrics\<rparr>))))))))),
          s'))"

section \<open>Analysis request\<close>

text \<open>
  The request carries the selected stocks, the custom weights and the optimization tag, each
  optional. The response is an explicit rejection with its message, the report of a caught
  exception, or the analysis; the charts plot the numbers of the analysis and are left out.
\<close>

record request =
  stocks :: "string list option"
  weights_in :: "(string \<rightharpoonup> real) option"
  optimization :: "string option"

record analysis =
  portfolio_weights :: "(string \<times> fval) list"
  portfolio_metrics :: metrics
  allocation_values :: "fval list"
  frontier :: frontier_data

datatype response = Failure string | ExceptionCaught error | Success analysis

definition STOCKS :: "string list" where
  "STOCKS = [''RELIANCE'', ''TCS'', ''HDFCBANK'', ''INFY'', ''ICICIBANK'']"

text \<open>\<open>returns_df.empty\<close>: no column or no row.\<close>

definition df_empty :: "dataframe \<Rightarrow> bool" where
  "df_empty df = (df = [] \<or> nrows df = 0)"

text \<open>\<open>returns_df[selected_stocks]\<close>: the named columns in the order of the selection;
  a name that is not a column raises.\<close>

fun df_select :: "dataframe \<Rightarrow> string list \<Rightarrow> error + dataframe" where
  "df_select df [] = Inr []"
| "df_select df (name # names) =
     (case map_of df name of
        None \<Rightarrow> Inl KeyError
      | Some c \<Rightarrow>
          (case df_select df names of
             Inl e \<Rightarrow> Inl e
           | Inr cols \<Rightarrow> Inr ((name, c) # cols)))"

text \<open>
  \<open>[weights_input.get(stock, 0) for stock in selected_stocks]\<close>. The weights of the
  request are JSON numbers; they are taken as real numbers here, which is what numpy
  computes with as long as its int64 or float64 sums are exact.
\<close>

definition raw_weights :: "(string \<rightharpoonup> real) \<Rightarrow> string list \<Rightarrow> real list" where
  "raw_weights weights_input selected_stocks =
     map (\<lambda>stock. case weights_input stock of None \<Rightarrow> 0 | Some v \<Rightarrow> v) selected_stocks"

text \<open>The second half of \<open>analyze_portfolio\<close>, from the check of the weights on.\<close>

definition analyze_with_weights ::
  "'s generator \<Rightarrow> minimizer \<Rightarrow> dataframe \<Rightarrow> string list \<Rightarrow> fval list option \<Rightarrow> 's
     \<Rightarrow> response \<times> 's" where
  "analyze_with_weights rng minimize returns_df selected_stocks weights s =
     (case weights of
        None \<Rightarrow> (Failure ''Optimization failed or invalid optimization type'', s)
      | Some w \<Rightarrow>
          (case calculate_portfolio_metrics w returns_df of
             Inl e \<Rightarrow> (ExceptionCaught e, s)
           | Inr m \<Rightarrow>
               (let (r, s') =
                      generate_efficient_frontier rng minimize returns_df n_portfolios_default s
                in case r of
                     Inl e \<Rightarrow> (ExceptionCaught e, s')
                   | Inr frontier_data \<Rightarrow>
                       (Success \<lparr>portfolio_weights = zip selected_stocks w,
                                 portfolio_metrics = m,
                                 allocation_values = map (\<lambda>v. fmul v (Fin 100)) w,
                                 frontier = frontier_data\<rparr>, s'))))"

text \<open>
  \<open>prepared\<close> is the return matrix that \<open>prepare_portfolio_data()\<close> builds from the
  market data.
\<close>

definition analyze_portfolio ::
  "'s generator \<Rightarrow> minimizer \<Rightarrow> dataframe \<Rightarrow> request \<Rightarrow> 's \<Rightarrow> response \<times> 's" where
  "analyze_portfolio rng minimize prepared data s =
     (let selected_stocks = (case stocks data of None \<Rightarrow> STOCKS | Some l \<Rightarrow> l);
          weights_input = (case weights_in data of None \<Rightarrow> Map.empty | Some d \<Rightarrow> d);
          tag = (case optimization data of None \<Rightarrow> ''equal'' | Some t \<Rightarrow> t)
      in if length selected_stocks < 2
         then (Failure ''At least 2 stocks must be selected'', s)
         else if df_empty prepared
         then (Failure ''No valid stock data available'', s)
         else
           case df_select prepared selected_stocks of
             Inl e \<Rightarrow> (ExceptionCaught e, s)
           | Inr returns_df \<Rightarrow>
               if tag = ''max_sharpe'' then
                 (case optimize_portfolio minimize returns_df ''sharpe'' of
                    Inl e \<Rightarrow> (ExceptionCaught e, s)
                  | Inr weights \<Rightarrow>
                      analyze_with_weights rng minimize returns_df selected_stocks weights s)
               else if tag = ''min_risk'' then
                 (case optimize_portfolio minimize returns_df ''min_risk'' of
                    Inl e \<Rightarrow> (ExceptionCaught e, s)
                  | Inr weights \<Rightarrow>
                      analyze_with_weights rng minimize returns_df selected_stocks weights s)
               else if tag = ''custom'' then
                 (let weights = map Fin (raw_weights weights_input selected_stocks)
                  in if np_sum weights = Fin 0
                     then (Failure ''Custom weights must sum to a positive value'', s)
                     else analyze_with_weights rng minimize returns_df selected_stocks
                            (Some (normalize_weights weights)) s)
               else
                 analyze_with_weights rng minimize returns_df selected_stocks
                   (Some (replicate (length selected_stocks)
                            (Fin (1 / real (length selected_stocks))))) s)"

section \<open>Notions used in the statements\<close>

text \<open>A float that is a real number, and one that is a real number at least zero.\<close>

fun is_fin :: "fval \<Rightarrow> bool" where
  "is_fin (Fin a) = True"
| "is_fin _ = False"

fun nonneg :: "fval \<Rightarrow> bool" where
  "nonneg (Fin a) = (0 \<le> a)"
| "nonneg _ = False"

text \<open>The first \<open>k\<close> draws of \<open>n\<close> numbers that the generator makes from state \<open>s\<close>.\<close>

fun draws :: "'s generator \<Rightarrow> nat \<Rightarrow> nat \<Rightarrow> 's \<Rightarrow> real list list" where
  "draws rng n 0 s = []"
| "draws rng n (Suc k) s = (let (d, s') = np_random rng n s in d # draws rng n k s')"

text \<open>
  What \<open>np.random.random(n)\<close> promises of a draw, \<open>n\<close> numbers in the half-open unit
  interval, together with a sum that is not zero.
\<close>

definition unit_draw :: "nat \<Rightarrow> real list \<Rightarrow> bool" where
  "unit_draw n d = (length d = n \<and> list_all (\<lambda>v. 0 \<le> v \<and> v < 1) d \<and> 0 < sum_list d)"

definition on_simplex :: "fval list \<Rightarrow> bool" where
  "on_simplex w = (list_all nonneg w \<and> np_sum w = Fin 1)"

text \<open>
  A weight between 0 and 1, a value within its bound, and a point within its bounds.
\<close>

fun in_unit :: "fval \<Rightarrow> bool" where
  "in_unit (Fin a) = (0 \<le> a \<and> a \<le> 1)"
| "in_unit _ = False"

fun in_bound :: "real \<times> real \<Rightarrow> fval \<Rightarrow> bool" where
  "in_bound (lo, hi) (Fin a) = (lo \<le> a \<and> a \<le> hi)"
| "in_bound (lo, hi) _ = False"

definition within_bounds :: "(real \<times> real) list \<Rightarrow> fval list \<Rightarrow> bool" where
  "within_bounds bounds v = list_all2 in_bound bounds v"

text \<open>
  An equality constraint is met within a tolerance when its function is that close to zero.
\<close>

fun constraint_met :: "real \<Rightarrow> fval list \<Rightarrow> constraint \<Rightarrow> bool" where
  "constraint_met tol v (kind, g) =
     (if kind = ''eq'' then (case g v of Inr (Fin r) \<Rightarrow> \<bar>r\<bar> \<le> tol | _ \<Rightarrow> False) else True)"

text \<open>
  What SLSQP is taken to guarantee when it reports success: the point lies within the
  bounds and meets every equality constraint within the tolerance. The solver's code is not
  part of the program, so this is an assumption about it, not a fact derived here.
\<close>

definition slsqp_contract :: "real \<Rightarrow> minimizer \<Rightarrow> bool" where
  "slsqp_contract tol minimize =
     (\<forall>f x0 bounds constraints res.
        minimize f x0 bounds constraints = Inr res \<longrightarrow> success res \<longrightarrow>
          within_bounds bounds (x_res res) \<and> list_all (constraint_met tol (x_res res)) constraints)"

text \<open>
  Custom weights for which numpy's sums are exact and the rounding of the quotients stays
  far below \<open>10\<^sup>-\<^sup>6\<close>: at most 100 whole numbers of magnitude at most \<open>10\<^sup>6\<close>. Sums
  of much larger numbers can overflow or wrap around, and sums of fractions can round to
  zero or away from it.
\<close>

definition exact_weights :: "real list \<Rightarrow> bool" where
  "exact_weights raw = (length raw \<le> 100 \<and> list_all (\<lambda>v. v \<in> \<int> \<and> \<bar>v\<bar> \<le> 10 ^ 6) raw)"

text \<open>The portfolio weights that a response reports, if it is an analysis.\<close>

fun response_weights :: "response \<Rightarrow> (string \<times> fval) list option" where
  "response_weights (Success a) = Some (portfolio_weights a)"
| "response_weights _ = None"

section \<open>Example inputs\<close>

text \<open>
  Two instruments over eight days, used to run the definitions on concrete numbers: daily
  mean returns of 0.1 and 0.2 percent and the same deviations from the mean.
\<close>

definition sample_returns :: dataframe where
  "sample_returns =
     [(''RELIANCE'', [6/1000, -4/1000, 6/1000, -4/1000, 1/1000, 1/1000, 1/1000, 1/1000]),
      (''TCS'', [7/1000, -3/1000, 7/1000, -3/1000, 2/1000, 2/1000, 2/1000, 2/1000])]"

text \<open>
  A generator whose state counts the draws since the seed: the first draw favours the first
  instrument, every later one the second.
\<close>

definition example_generator :: "nat generator" where
  "example_generator =
     \<lparr>np_seed = (\<lambda>seed. 0),
      np_random = (\<lambda>n s.
        (if s = 0 then map (\<lambda>i. if i = 0 then 3/8 else 1/8) [0..<n]
         else map (\<lambda>i. if i = 0 then 1/8 else 3/8) [0..<n], Suc s))\<rparr>"

text \<open>
  Two solvers: one that accepts the initial guess when it meets every equality constraint
  and reports failure otherwise, and one that always reports failure.
\<close>

definition checking_minimizer :: minimizer where
  "checking_minimizer f x0 bounds constraints =
     Inr \<lparr>success = list_all (\<lambda>c. snd c x0 = Inr (Fin 0)) constraints, x_res = x0\<rparr>"

definition failing_minimizer :: minimizer where
  "failing_minimizer f x0 bounds constraints = Inr \<lparr>success = False, x_res = x0\<rparr>"

text \<open>
  A solver that accepts the initial guess when it lies within the bounds and meets every
  equality constraint, and reports failure otherwise.
\<close>

definition feasible_start_minimizer :: minimizer where
  "feasible_start_minimizer f x0 bounds constraints =
     Inr \<lparr>success = (within_bounds bounds x0 \<and> list_all (constraint_met 0 x0) constraints),
          x_res = x0\<rparr>"

text \<open>Requests for the two example instruments.\<close>

definition example_request :: "string \<Rightarrow> (string \<rightharpoonup> real) \<Rightarrow> request" where
  "example_request tag weights =
     \<lparr>stocks = Some [''RELIANCE'', ''TCS''], weights_in = Some weights, optimization = Some tag\<rparr>"

text \<open>
  The frontier of the example instruments with the example generator, the checking solver
  and three curve points.
\<close>

definition example_frontier :: frontier_data where
  "example_frontier =
     \<lparr>cloud_returns = Fin (63/2) # replicate 999 (Fin (441/10)),
      cloud_risks = Fin 6 # replicate 999 (Fin 6),
      cloud_sharpes = Fin (17/4) # replicate 999 (Fin (127/20)),
      frontier_returns = [Fin (63/2), Fin (189/5), Fin (441/10)],
      frontier_risks_out = [None, Some (Fin 6), None],
      max_sharpe = \<lparr>p_weights = [Fin (1/2), Fin (1/2)],
                     p_metrics = \<lparr>return = Fin (189/5), risk = Fin 6, sharpe = Fin (53/10)\<rparr>\<rparr>,
      min_risk = \<lparr>p_weights = [Fin (1/2), Fin (1/2)],
                   p_metrics = \<lparr>return = Fin (189/5), risk = Fin 6, sharpe = Fin (53/10)\<rparr>\<rparr>\<rparr>"

section \<open>Arithmetic on finite values\<close>

lemma foldl_fadd_Fin: "foldl fadd (Fin a) (map Fin xs) = Fin (a + sum_list xs)"
  by (induction xs arbitrary: a) (simp_all add: add.assoc)

lemma np_sum_Fin: "np_sum (map Fin xs) = Fin (sum_list xs)"
  by (simp add: np_sum_def foldl_fadd_Fin)

lemma map2_fmul_Fin: "map2 fmul (map Fin a) (map Fin b) = map Fin (map2 (*) a b)"
  by (induction a b rule: list_induct2') simp_all


lemma df_wf_col: "df_wf R \<Longrightarrow> i < length R \<Longrightarrow> length (col R i) = nrows R"
  by (simp add: df_wf_def col_def list_all_length)

lemma mean_col: "df_wf R \<Longrightarrow> i < length R \<Longrightarrow> mean (col R i) = spec_mean R i"
  by (simp add: mean_def spec_mean_def df_wf_col sum_list_sum_nth atLeast0LessThan)


section \<open>The metrics in closed form\<close>

lemma np_sum_upt: "np_sum (map (\<lambda>i. Fin (f i)) [0..<k]) = Fin (\<Sum>i<k. f i)"
proof -
  have "np_sum (map Fin (map f [0..<k])) = Fin (sum_list (map f [0..<k]))"
    by (rule np_sum_Fin)
  then show ?thesis
    by (simp add: comp_def sum_list_sum_nth atLeast0LessThan)
qed

lemma map2_fmul_upt_l:
  "length w = k \<Longrightarrow>
   map2 fmul (map (\<lambda>i. Fin (f i)) [0..<k]) (map Fin w) = map (\<lambda>i. Fin (f i * w ! i)) [0..<k]"
  by (rule nth_equalityI) simp_all


lemma df_mean_Fin:
  assumes "df_wf R" "0 < nrows R"
  shows "df_mean R = map (\<lambda>i. Fin (spec_mean R i)) [0..<length R]"
proof (rule nth_equalityI)
  show "length (df_mean R) = length (map (\<lambda>i. Fin (spec_mean R i)) [0..<length R])"
    by (simp add: df_mean_def)
next
  fix i assume "i < length (df_mean R)"
  then have i: "i < length R" by (simp add: df_mean_def)
  from assms i have "length (col R i) = nrows R" by (simp add: df_wf_col)
  with assms have "snd (R ! i) \<noteq> []" by (auto simp: col_def)
  with i assms show "df_mean R ! i = map (\<lambda>i. Fin (spec_mean R i)) [0..<length R] ! i"
    using mean_col[of R i] by (simp add: df_mean_def col_def)
qed


lemma np_sum_series_upt:
  "np_sum_series (map (\<lambda>i. Fin (f i)) [0..<k]) = Fin (\<Sum>i<k. f i)"
proof -
  have "filter (\<lambda>v. v \<noteq> NaN) (map (\<lambda>i. Fin (f i)) [0..<k]) = map (\<lambda>i. Fin (f i)) [0..<k]"
    by (simp add: filter_map comp_def)
  then show ?thesis
    by (simp only: np_sum_series_def np_sum_upt)
qed


lemma np_dot_mv_square:
  assumes "length M = length v" "list_all (\<lambda>row. length row = length v) M"
  shows "np_dot_mv M v = Inr (map (\<lambda>row. np_sum (map2 fmul row v)) M)"
  using assms by (cases M) (simp_all add: np_dot_mv_def)






text \<open>
  The shape of every result: the annual return is 100 times a portfolio return, the risk is
  100 times the square root of the quadratic form, and the Sharpe ratio is their quotient
  after the risk-free rate is taken off.
\<close>

lemma calculate_structure:
  assumes "length w = length R"
  shows "calculate_portfolio_metrics w R =
           Inr \<lparr>return = fmul (fmul (np_sum_series (map2 fmul (df_mean R) w)) (Fin 252)) (Fin 100),
                risk = fmul (np_sqrt (np_sum (map2 fmul w
                         (map (\<lambda>row. np_sum (map2 fmul row w)) (mat_scale (df_cov R) (Fin 252))))))
                       (Fin 100),
                sharpe = fdiv (fsub (fmul (np_sum_series (map2 fmul (df_mean R) w)) (Fin 252))
                                 (Fin (6 / 100)))
                           (np_sqrt (np_sum (map2 fmul w
                              (map (\<lambda>row. np_sum (map2 fmul row w))
                                 (mat_scale (df_cov R) (Fin 252))))))\<rparr>"
proof -
  have "np_dot_mv (mat_scale (df_cov R) (Fin 252)) w
          = Inr (map (\<lambda>row. np_sum (map2 fmul row w)) (mat_scale (df_cov R) (Fin 252)))"
    using assms by (intro np_dot_mv_square) (simp_all add: mat_scale_def df_cov_def list_all_iff)
  with assms show ?thesis
    by (simp add: calculate_portfolio_metrics_def series_mul_def df_mean_def
        mat_scale_def df_cov_def np_dot_vv_def Let_def)
qed

lemma calculate_shape_ok:
  assumes "length w = length R"
  shows "\<exists>m ps pr. calculate_portfolio_metrics w R = Inr m \<and>
             return m = fmul (fmul (np_sum_series (map2 fmul (df_mean R) w)) (Fin 252)) (Fin 100) \<and>
             risk m = fmul ps (Fin 100) \<and> sharpe m = fdiv pr ps"
  by (simp only: calculate_structure[OF assms]) auto

lemma return_Fin:
  assumes "df_wf R" "0 < nrows R" "length w = length R"
  shows "fmul (fmul (np_sum_series (map2 fmul (df_mean R) (map Fin w))) (Fin 252)) (Fin 100)
         = Fin (spec_annual_return w R)"
  using assms by (simp add: df_mean_Fin map2_fmul_upt_l np_sum_series_upt spec_annual_return_def)

lemma fmul_100_zero: "fmul ps (Fin 100) = Fin 0 \<Longrightarrow> ps = Fin 0"
  by (cases ps) (simp_all split: if_splits)

lemma fdiv_zero_nonfinite:
  "fdiv pr (Fin 0) = PInf \<or> fdiv pr (Fin 0) = NInf \<or> fdiv pr (Fin 0) = NaN"
  by (cases pr) simp_all

subsection \<open>Fewer than two rows\<close>

lemma fadd_NaN_right: "fadd a NaN = NaN"
  by (cases a) simp_all

lemma fmul_NaN_right: "fmul a NaN = NaN"
  by (cases a) simp_all


lemma foldl_fadd_NaN: "foldl fadd NaN xs = NaN"
  by (induction xs) simp_all

lemma np_sum_NaN: "NaN \<in> set xs \<Longrightarrow> np_sum xs = NaN"
proof -
  have "NaN \<in> set xs \<Longrightarrow> foldl fadd a xs = NaN" for a
    by (induction xs arbitrary: a) (auto simp: fadd_NaN_right foldl_fadd_NaN)
  then show "NaN \<in> set xs \<Longrightarrow> np_sum xs = NaN"
    by (simp add: np_sum_def)
qed

lemma np_sum_replicate_NaN: "0 < k \<Longrightarrow> np_sum (replicate k NaN) = NaN"
  by (rule np_sum_NaN) simp

lemma map2_fmul_replicate_NaN:
  "length w = k \<Longrightarrow> map2 fmul (replicate k NaN) w = replicate k NaN"
  "length w = k \<Longrightarrow> map2 fmul w (replicate k NaN) = replicate k NaN"
  by (induction w arbitrary: k) (auto simp: fmul_NaN_right)

lemma few_rows_cov_NaN:
  assumes "df_wf R" "nrows R < 2"
  shows "mat_scale (df_cov R) (Fin 252) = replicate (length R) (replicate (length R) NaN)"
proof -
  have c: "cov_entry (snd a) (snd b) = NaN" if "a \<in> set R" for a b
    using that assms by (simp add: cov_entry_def df_wf_def list_all_iff)
  have "map (\<lambda>b. fmul (cov_entry (snd a) (snd b)) (Fin 252)) R = replicate (length R) NaN"
    if "a \<in> set R" for a
    by (simp add: c[OF that] map_replicate_const)
  then have "map (\<lambda>a. map (\<lambda>b. fmul (cov_entry (snd a) (snd b)) (Fin 252)) R) R
             = map (\<lambda>a. replicate (length R) NaN) R"
    by (intro map_cong refl)
  then show ?thesis
    by (simp add: mat_scale_def df_cov_def comp_def map_replicate_const)
qed

lemma few_rows_risk_NaN:
  assumes "df_wf R" "R \<noteq> []" "nrows R < 2" "length w = length R"
  shows "np_sqrt (np_sum (map2 fmul w
           (map (\<lambda>row. np_sum (map2 fmul row w)) (mat_scale (df_cov R) (Fin 252))))) = NaN"
proof -
  from assms(2) have k: "0 < length R" by simp
  show ?thesis
    using assms(4) k
    by (simp add: few_rows_cov_NaN[OF assms(1,3)] map2_fmul_replicate_NaN
          np_sum_replicate_NaN map_replicate_const)
qed

lemma calculate_Inr_length:
  "calculate_portfolio_metrics w R = Inr m \<Longrightarrow> length w = length R"
  by (simp add: calculate_portfolio_metrics_def series_mul_def df_mean_def split: if_splits)

lemma risk_sign: "fmul (np_sqrt q) (Fin 100) = NaN \<or> fmul (np_sqrt q) (Fin 100) = PInf
                  \<or> nonneg (fmul (np_sqrt q) (Fin 100))"
  by (cases q) simp_all

subsection \<open>The metrics on the example\<close>

lemmas metrics_defs = calculate_portfolio_metrics_def series_mul_def df_mean_def mean_def
  np_sum_series_def np_sum_def np_dot_mv_def mat_scale_def df_cov_def cov_entry_def np_dot_vv_def fsub_def Let_def

lemma sqrt_sample: "sqrt (9 / 2500) = 3 / 50"
  by (rule real_sqrt_unique) (simp_all add: power2_eq_square)

lemma sample_metrics:
  "calculate_portfolio_metrics [Fin (1/2), Fin (1/2)] sample_returns
     = Inr \<lparr>return = Fin (189/5), risk = Fin 6, sharpe = Fin (53/10)\<rparr>"
  by (simp add: metrics_defs sample_returns_def sqrt_sample)

lemma sample_wf: "df_wf sample_returns" "nrows sample_returns = 8" "length sample_returns = 2"
  by (simp_all add: df_wf_def nrows_def sample_returns_def)

section \<open>Portfolio metrics: the formulas\<close>





section \<open>Portfolio metrics: zero risk\<close>

text \<open>
  Claim C4 says that a zero annual risk makes \<open>calculate_portfolio_metrics\<close> signal an
  error. The function has no such check: on one instrument with the return 1/128 on each
  of three days and weight 1 it returns risk 0 and an infinite Sharpe ratio.
\<close>

theorem constant_series_counterexample:
  "calculate_portfolio_metrics [Fin 1] [(''RELIANCE'', [1/128, 1/128, 1/128])]
     = Inr \<lparr>return = Fin (1575/8), risk = Fin 0, sharpe = PInf\<rparr>"
  by (simp add: metrics_defs)

text \<open>
  Claim C4, amended. For every weight vector with one weight per column,
  \<open>calculate_portfolio_metrics\<close> raises no error, and whenever the annual risk it returns
  is zero, the Sharpe ratio it returns is plus infinity, minus infinity or NaN.
\<close>

theorem zero_risk_gives_nonfinite_sharpe:
  assumes "length w = length R"
  shows "\<exists>m. calculate_portfolio_metrics w R = Inr m
           \<and> (risk m = Fin 0 \<longrightarrow> sharpe m = PInf \<or> sharpe m = NInf \<or> sharpe m = NaN)"
proof -
  obtain m ps pr where m: "calculate_portfolio_metrics w R = Inr m"
    and r: "risk m = fmul ps (Fin 100)" and sh: "sharpe m = fdiv pr ps"
    using calculate_shape_ok[OF assms] by blast
  have "sharpe m = PInf \<or> sharpe m = NInf \<or> sharpe m = NaN" if "risk m = Fin 0"
  proof -
    from that r have "ps = Fin 0" by (simp add: fmul_100_zero)
    with sh show ?thesis using fdiv_zero_nonfinite[of pr] by simp
  qed
  with m show ?thesis by blast
qed

theorem zero_risk_gives_nonfinite_sharpe_witness:
  "length [Fin 1] = length [(''RELIANCE'', [1/128, 1/128, 1/128 :: real])]
   \<and> (\<exists>m. calculate_portfolio_metrics [Fin 1] [(''RELIANCE'', [1/128, 1/128, 1/128])] = Inr m
          \<and> risk m = Fin 0 \<and> sharpe m = PInf)"
  using zero_risk_gives_nonfinite_sharpe[of "[Fin 1]" "[(''RELIANCE'', [1/128, 1/128, 1/128])]"]
  by (simp add: metrics_defs)

section \<open>Portfolio metrics: the sign of the risk\<close>

text \<open>
  Claim C7 says that the risk is at least zero for every return matrix. With a single row
  the sample covariance is NaN, and so is the risk; NaN is not at least zero.
\<close>

theorem single_row_risk_counterexample:
  "calculate_portfolio_metrics [Fin 1] [(''RELIANCE'', [1/128])]
     = Inr \<lparr>return = Fin (1575/8), risk = NaN, sharpe = NaN\<rparr> \<and> \<not> fle (Fin 0) NaN"
  by (simp add: metrics_defs fle_def)

text \<open>
  Claim C7, amended. Whenever \<open>calculate_portfolio_metrics\<close> returns a result, the risk
  in it is never a negative number: it is NaN, or it is greater than or equal to zero,
  infinity included. It is NaN for every return matrix with at least one column and fewer
  than two rows. (This holds whatever the rounding: the risk is 100 times a square root.)
\<close>

theorem risk_never_negative:
  assumes "calculate_portfolio_metrics w R = Inr m"
  shows "(risk m = NaN \<or> risk m = PInf \<or> nonneg (risk m))
       \<and> (df_wf R \<and> R \<noteq> [] \<and> nrows R < 2 \<longrightarrow> risk m = NaN)"
proof -
  have len: "length w = length R" by (rule calculate_Inr_length[OF assms])
  from assms calculate_structure[OF len]
  have r: "risk m = fmul (np_sqrt (np_sum (map2 fmul w
             (map (\<lambda>row. np_sum (map2 fmul row w)) (mat_scale (df_cov R) (Fin 252))))))
           (Fin 100)"
    by auto
  have "risk m = NaN \<or> risk m = PInf \<or> nonneg (risk m)"
    unfolding r by (rule risk_sign)
  moreover have "risk m = NaN" if "df_wf R \<and> R \<noteq> [] \<and> nrows R < 2"
    using that by (simp add: r few_rows_risk_NaN[OF _ _ _ len])
  ultimately show ?thesis by blast
qed

theorem risk_never_negative_witness:
  "calculate_portfolio_metrics [Fin (1/2), Fin (1/2)] sample_returns
     = Inr \<lparr>return = Fin (189/5), risk = Fin 6, sharpe = Fin (53/10)\<rparr>
   \<and> nonneg (Fin 6)
   \<and> calculate_portfolio_metrics [Fin 1, Fin 0] [(''RELIANCE'', [1/128]), (''TCS'', [3/128])]
     = Inr \<lparr>return = Fin (1575/8), risk = NaN, sharpe = NaN\<rparr>
   \<and> df_wf [(''RELIANCE'', [1/128]), (''TCS'', [3/128])]
   \<and> nrows [(''RELIANCE'', [1/128]), (''TCS'', [3/128])] < 2"
proof -
  have b: "calculate_portfolio_metrics [Fin 1, Fin 0] [(''RELIANCE'', [1/128]), (''TCS'', [3/128])]
     = Inr \<lparr>return = Fin (1575/8), risk = NaN, sharpe = NaN\<rparr>"
    by (simp add: metrics_defs)
  from risk_never_negative[OF sample_metrics] risk_never_negative[OF b]
  show ?thesis
    by (simp add: sample_metrics b df_wf_def nrows_def)
qed


section \<open>The random cloud\<close>

lemma sum_list_divide: "sum_list (map (\<lambda>v. v / c) d) = sum_list d / (c::real)"
  by (induction d) (simp_all add: add_divide_distrib)

lemma normalize_weights_Fin:
  assumes "sum_list d \<noteq> 0"
  shows "normalize_weights (map Fin d) = map Fin (map (\<lambda>v. v / sum_list d) d)"
  using assms by (simp add: normalize_weights_def np_sum_Fin)

lemma normalize_weights_on_simplex:
  assumes "unit_draw n d"
  shows "on_simplex (normalize_weights (map Fin d))" "length (normalize_weights (map Fin d)) = n"
proof -
  from assms have pos: "0 < sum_list d" and len: "length d = n"
    and nn: "list_all (\<lambda>v. 0 \<le> v \<and> v < 1) d"
    by (simp_all add: unit_draw_def)
  have eq: "normalize_weights (map Fin d) = map Fin (map (\<lambda>v. v / sum_list d) d)"
    using pos by (simp add: normalize_weights_Fin)
  have "list_all nonneg (map Fin (map (\<lambda>v. v / sum_list d) d))"
    using nn pos by (simp add: list_all_iff)
  moreover have "np_sum (map Fin (map (\<lambda>v. v / sum_list d) d)) = Fin 1"
    using pos by (simp only: np_sum_Fin sum_list_divide) simp
  ultimately show "on_simplex (normalize_weights (map Fin d))"
    by (simp add: eq on_simplex_def)
  show "length (normalize_weights (map Fin d)) = n"
    using len by (simp add: normalize_weights_def)
qed

lemma random_portfolios_simplex:
  assumes "list_all (unit_draw (length R)) (draws rng (length R) k s)"
    and "list_all on_simplex (random_weights acc)"
  shows "\<exists>cl s'. random_portfolios rng R (length R) k acc s = (Inr cl, s')
           \<and> length (random_weights cl) = length (random_weights acc) + k
           \<and> list_all on_simplex (random_weights cl)"
  using assms
proof (induction k arbitrary: acc s)
  case 0
  then show ?case by simp
next
  case (Suc k)
  obtain d s1 where d: "np_random rng (length R) s = (d, s1)"
    by (cases "np_random rng (length R) s")
  from Suc.prems(1) d have ud: "unit_draw (length R) d"
    and rest: "list_all (unit_draw (length R)) (draws rng (length R) k s1)"
    by simp_all
  let ?w = "normalize_weights (map Fin d)"
  have len: "length ?w = length R" and simp: "on_simplex ?w"
    using normalize_weights_on_simplex[OF ud] by simp_all
  obtain m where m: "calculate_portfolio_metrics ?w R = Inr m"
    using calculate_shape_ok[OF len] by blast
  let ?acc = "\<lparr>random_weights = random_weights acc @ [?w],
                random_returns = random_returns acc @ [return m],
                random_risks = random_risks acc @ [risk m],
                random_sharpes = random_sharpes acc @ [sharpe m]\<rparr>"
  have "list_all on_simplex (random_weights ?acc)"
    using Suc.prems(2) simp by simp
  from Suc.IH[OF rest this] obtain cl s' where
    "random_portfolios rng R (length R) k ?acc s1 = (Inr cl, s')"
    "length (random_weights cl) = length (random_weights ?acc) + k"
    "list_all on_simplex (random_weights cl)"
    by blast
  then show ?case
    using d m by simp
qed

lemma random_portfolios_lengths:
  assumes "random_portfolios rng R n k acc s = (Inr cl, s')"
  shows "length (random_returns cl) = length (random_returns acc) + k"
  using assms
proof (induction k arbitrary: acc s)
  case 0
  then show ?case by simp
next
  case (Suc k)
  obtain d s1 where d: "np_random rng n s = (d, s1)"
    by (cases "np_random rng n s")
  from Suc.prems d obtain m where
    m: "calculate_portfolio_metrics (normalize_weights (map Fin d)) R = Inr m"
    by (cases "calculate_portfolio_metrics (normalize_weights (map Fin d)) R") (simp_all add: Let_def)
  with Suc.prems d have
    "random_portfolios rng R n k
       \<lparr>random_weights = random_weights acc @ [normalize_weights (map Fin d)],
        random_returns = random_returns acc @ [return m],
        random_risks = random_risks acc @ [risk m],
        random_sharpes = random_sharpes acc @ [sharpe m]\<rparr> s1 = (Inr cl, s')"
    by (simp add: Let_def)
  from Suc.IH[OF this] show ?case by simp
qed

lemma random_portfolios_returns_finite:
  assumes "df_wf R" "0 < nrows R"
    and "list_all (unit_draw (length R)) (draws rng (length R) k s)"
    and "list_all is_fin (random_returns acc)"
    and "random_portfolios rng R (length R) k acc s = (Inr cl, s')"
  shows "list_all is_fin (random_returns cl)"
  using assms(3-5)
proof (induction k arbitrary: acc s)
  case 0
  then show ?case by simp
next
  case (Suc k)
  obtain d s1 where d: "np_random rng (length R) s = (d, s1)"
    by (cases "np_random rng (length R) s")
  from Suc.prems(1) d have ud: "unit_draw (length R) d"
    and rest: "list_all (unit_draw (length R)) (draws rng (length R) k s1)"
    by simp_all
  from ud have pos: "sum_list d \<noteq> 0" and len: "length d = length R"
    by (simp_all add: unit_draw_def)
  let ?v = "map (\<lambda>v. v / sum_list d) d"
  have w: "normalize_weights (map Fin d) = map Fin ?v"
    by (rule normalize_weights_Fin[OF pos])
  from len have lenv: "length ?v = length R" by simp
  obtain m where m: "calculate_portfolio_metrics (map Fin ?v) R = Inr m"
    and r: "return m = fmul (fmul (np_sum_series (map2 fmul (df_mean R) (map Fin ?v))) (Fin 252)) (Fin 100)"
    using calculate_shape_ok[of "map Fin ?v" R] lenv by auto
  have fin: "is_fin (return m)"
    by (simp only: r return_Fin[OF assms(1,2) lenv] is_fin.simps)
  let ?acc = "\<lparr>random_weights = random_weights acc @ [map Fin ?v],
                random_returns = random_returns acc @ [return m],
                random_risks = random_risks acc @ [risk m],
                random_sharpes = random_sharpes acc @ [sharpe m]\<rparr>"
  from Suc.prems(3) d m have rec: "random_portfolios rng R (length R) k ?acc s1 = (Inr cl, s')"
    by (simp add: w Let_def)
  have "list_all is_fin (random_returns ?acc)"
    using Suc.prems(2) fin by simp
  from Suc.IH[OF rest this rec] show ?case .
qed

subsection \<open>The cloud of the example\<close>

lemma example_draw_first: "np_random example_generator 2 0 = ([3/8, 1/8], 1)"
  by (simp add: example_generator_def upt_conv_Cons)

lemma example_draw_later: "0 < s \<Longrightarrow> np_random example_generator 2 s = ([1/8, 3/8], Suc s)"
  by (simp add: example_generator_def upt_conv_Cons)

lemma example_seed: "np_seed example_generator k = 0"
  by (simp add: example_generator_def)

lemma example_draws_later:
  "0 < s \<Longrightarrow> draws example_generator 2 k s = replicate k [1/8, 3/8]"
  by (induction k arbitrary: s) (simp_all add: example_draw_later)

lemma example_draws:
  "draws example_generator 2 (Suc k) 0 = [3/8, 1/8] # replicate k [1/8, 3/8]"
  by (simp add: example_draw_first example_draws_later)

lemma example_weights:
  "normalize_weights [Fin (3/8), Fin (1/8)] = [Fin (3/4), Fin (1/4)]"
  "normalize_weights [Fin (1/8), Fin (3/8)] = [Fin (1/4), Fin (3/4)]"
  by (simp_all add: normalize_weights_def np_sum_def)

lemma sample_metrics_first:
  "calculate_portfolio_metrics [Fin (3/4), Fin (1/4)] sample_returns
     = Inr \<lparr>return = Fin (63/2), risk = Fin 6, sharpe = Fin (17/4)\<rparr>"
  by (simp add: metrics_defs sample_returns_def sqrt_sample)

lemma sample_metrics_later:
  "calculate_portfolio_metrics [Fin (1/4), Fin (3/4)] sample_returns
     = Inr \<lparr>return = Fin (441/10), risk = Fin 6, sharpe = Fin (127/20)\<rparr>"
  by (simp add: metrics_defs sample_returns_def sqrt_sample)

lemma random_portfolios_constant:
  assumes "\<And>t. s \<le> t \<Longrightarrow> np_random rng n t = (d, Suc t)"
    and "calculate_portfolio_metrics (normalize_weights (map Fin d)) R = Inr m"
  shows "random_portfolios rng R n k acc s =
           (Inr \<lparr>random_weights = random_weights acc @ replicate k (normalize_weights (map Fin d)),
                 random_returns = random_returns acc @ replicate k (return m),
                 random_risks = random_risks acc @ replicate k (risk m),
                 random_sharpes = random_sharpes acc @ replicate k (sharpe m)\<rparr>, s + k)"
  using assms(1)
proof (induction k arbitrary: acc s)
  case 0
  then show ?case by simp
next
  case (Suc k)
  have step: "np_random rng n s = (d, Suc s)" by (rule Suc.prems) simp
  have later: "\<And>t. Suc s \<le> t \<Longrightarrow> np_random rng n t = (d, Suc t)"
    by (rule Suc.prems) simp
  show ?case
    by (simp add: step assms(2) Suc.IH[OF later] replicate_app_Cons_same)
qed

lemma example_cloud:
  "random_portfolios example_generator sample_returns 2 (Suc k) empty_cloud 0 =
     (Inr \<lparr>random_weights = [Fin (3/4), Fin (1/4)] # replicate k [Fin (1/4), Fin (3/4)],
           random_returns = Fin (63/2) # replicate k (Fin (441/10)),
           random_risks = Fin 6 # replicate k (Fin 6),
           random_sharpes = Fin (17/4) # replicate k (Fin (127/20))\<rparr>, Suc k)"
proof -
  have later: "\<And>t. Suc 0 \<le> t \<Longrightarrow> np_random example_generator 2 t = ([1/8, 3/8], Suc t)"
    by (simp add: example_draw_later)
  have m: "calculate_portfolio_metrics (normalize_weights (map Fin [1/8, 3/8])) sample_returns
             = Inr \<lparr>return = Fin (441/10), risk = Fin 6, sharpe = Fin (127/20)\<rparr>"
    by (simp add: example_weights sample_metrics_later)
  have "random_portfolios example_generator sample_returns 2 (Suc k) empty_cloud 0 =
        random_portfolios example_generator sample_returns 2 k
          \<lparr>random_weights = [[Fin (3/4), Fin (1/4)]], random_returns = [Fin (63/2)],
           random_risks = [Fin 6], random_sharpes = [Fin (17/4)]\<rparr> (Suc 0)"
    by (simp add: example_draw_first example_weights sample_metrics_first empty_cloud_def Let_def)
  also have "\<dots> =
     (Inr \<lparr>random_weights = [Fin (3/4), Fin (1/4)] # replicate k [Fin (1/4), Fin (3/4)],
           random_returns = Fin (63/2) # replicate k (Fin (441/10)),
           random_risks = Fin 6 # replicate k (Fin 6),
           random_sharpes = Fin (17/4) # replicate k (Fin (127/20))\<rparr>, Suc k)"
    by (simp add: random_portfolios_constant[OF later m] example_weights)
  finally show ?thesis .
qed

lemma example_cloud_1000:
  "random_portfolios example_generator sample_returns 2 1000 empty_cloud 0 =
     (Inr \<lparr>random_weights = [Fin (3/4), Fin (1/4)] # replicate 999 [Fin (1/4), Fin (3/4)],
           random_returns = Fin (63/2) # replicate 999 (Fin (441/10)),
           random_risks = Fin 6 # replicate 999 (Fin 6),
           random_sharpes = Fin (17/4) # replicate 999 (Fin (127/20))\<rparr>, 1000)"
proof -
  have k: "(1000::nat) = Suc 999" by simp
  show ?thesis unfolding k by (rule example_cloud)
qed

subsection \<open>Weights of the cloud\<close>

text \<open>
  Claim C10. When each of the 1000 draws that the generator makes from seed 42 has one
  number per instrument, all in the half-open unit interval, and a positive sum, the loop
  of \<open>generate_efficient_frontier\<close> that builds the random cloud completes, and each of
  its 1000 weight vectors has components that are real numbers at least zero and sums to 1.
\<close>

theorem random_cloud_weights_on_simplex:
  assumes "list_all (unit_draw (length R)) (draws rng (length R) 1000 (np_seed rng 42))"
  shows "\<exists>cl s'. random_portfolios rng R (length R) 1000 empty_cloud (np_seed rng 42) = (Inr cl, s')
           \<and> length (random_weights cl) = 1000
           \<and> list_all on_simplex (random_weights cl)"
  using random_portfolios_simplex[OF assms, of empty_cloud] by (simp add: empty_cloud_def)

theorem random_cloud_weights_on_simplex_witness:
  "list_all (unit_draw (length sample_returns))
     (draws example_generator (length sample_returns) 1000 (np_seed example_generator 42))
   \<and> (\<exists>cl s'. random_portfolios example_generator sample_returns (length sample_returns) 1000
                  empty_cloud (np_seed example_generator 42) = (Inr cl, s')
         \<and> length (random_weights cl) = 1000 \<and> list_all on_simplex (random_weights cl))"
proof -
  have k: "(1000::nat) = Suc 999" by simp
  have "draws example_generator 2 1000 0 = [3/8, 1/8] # replicate 999 [1/8, 3/8]"
    unfolding k by (rule example_draws)
  then have d: "list_all (unit_draw (length sample_returns))
     (draws example_generator (length sample_returns) 1000 (np_seed example_generator 42))"
    by (simp add: sample_wf example_seed unit_draw_def list_all_iff)
  from random_cloud_weights_on_simplex[OF d] d show ?thesis by blast
qed

subsection \<open>Reproducibility\<close>

text \<open>
  Claim C8. \<open>generate_efficient_frontier\<close> sets the seed 42 before it draws, so its
  result, the random cloud included, and the generator state it leaves do not depend on the
  state of the generator before the call: two invocations on the same return matrix agree,
  also when the second follows the first.
\<close>

theorem generate_efficient_frontier_reproducible:
  "generate_efficient_frontier rng minimize R n s1 = generate_efficient_frontier rng minimize R n s2
   \<and> generate_efficient_frontier rng minimize R n
        (snd (generate_efficient_frontier rng minimize R n s1))
      = generate_efficient_frontier rng minimize R n s1"
  by (simp add: generate_efficient_frontier_def)

section \<open>The frontier curve\<close>

lemma take_snoc_prefix:
  assumes "take (Suc (length fr)) xs = fr @ [x]"
  shows "take (length fr) xs = fr" and "xs ! length fr = x"
proof -
  have "take (length fr) (take (Suc (length fr)) xs) = take (length fr) (fr @ [x])"
    using assms by simp
  then show "take (length fr) xs = fr" by simp
  have "take (Suc (length fr)) xs ! length fr = (fr @ [x]) ! length fr"
    using assms by simp
  then show "xs ! length fr = x" by simp
qed

lemma np_linspace_length:
  assumes "np_linspace start stop n = Inr ts"
  shows "0 \<le> n \<and> length ts = nat n"
  using assms by (auto simp: np_linspace_def Let_def split: if_splits)

lemma np_linspace_Fin:
  assumes "np_linspace (Fin lo) (Fin hi) n = Inr ts"
  shows "ts = map (\<lambda>i. Fin (lo + real i * ((hi - lo) / real (nat n - 1)))) [0..<nat n]"
proof -
  consider "nat n = 0" | "nat n = 1" | "2 \<le> nat n" by linarith
  then show ?thesis
  proof cases
    case 1
    with assms show ?thesis by (auto simp: np_linspace_def Let_def split: if_splits)
  next
    case 2
    with assms show ?thesis by (auto simp: np_linspace_def Let_def fsub_def split: if_splits)
  next
    case 3
    then obtain k where k: "nat n = Suc (Suc k)"
      by (metis Suc_le_D numeral_2_eq_2 Suc_le_mono)
    have last: "lo + real (Suc k) * ((hi - lo) / real (Suc k)) = hi"
      by simp
    from assms k have "ts = map (\<lambda>i. fadd (fmul (Fin (real i)) (fdiv (fsub (Fin hi) (Fin lo)) (Fin (real (Suc k))))) (Fin lo)) [0..<Suc k] @ [Fin hi]"
      by (auto simp: np_linspace_def Let_def split: if_splits)
    also have "\<dots> = map (\<lambda>i. Fin (lo + real i * ((hi - lo) / real (Suc k)))) [0..<Suc k] @ [Fin hi]"
      by (simp add: fsub_def add.commute)
    also have "\<dots> = map (\<lambda>i. Fin (lo + real i * ((hi - lo) / real (Suc k)))) [0..<Suc (Suc k)]"
      using last by simp
    finally show ?thesis using k by simp
  qed
qed

lemma np_linspace_total: "0 \<le> n \<Longrightarrow> \<exists>ts. np_linspace lo hi n = Inr ts"
  by (simp add: np_linspace_def Let_def)

lemma linspace_sorted:
  assumes "lo \<le> hi" "0 \<le> c"
  shows "sorted_wrt fle (map (\<lambda>i. Fin (lo + real i * ((hi - lo) / c))) [0..<k])"
proof -
  from assms have d: "0 \<le> (hi - lo) / c" by simp
  have "lo + real i * ((hi - lo) / c) \<le> lo + real j * ((hi - lo) / c)" if "i < j" for i j
    using that d by (intro add_left_mono mult_right_mono) simp_all
  then show ?thesis
    by (simp add: sorted_wrt_iff_nth_less fle_def not_less)
qed

lemma linspace_ends:
  assumes "ts = map (\<lambda>i. Fin (lo + real i * ((hi - lo) / real (k - 1)))) [0..<k]"
  shows "0 < k \<Longrightarrow> hd ts = Fin lo" and "1 < k \<Longrightarrow> last ts = Fin hi"
proof -
  assume "0 < k"
  then have "[0..<k] = 0 # [1..<k]" by (simp add: upt_conv_Cons)
  with assms show "hd ts = Fin lo" by simp
next
  assume k: "1 < k"
  then have "ts \<noteq> []" using assms by simp
  then have "last ts = ts ! (k - 1)" using assms by (simp add: last_conv_nth)
  also have "\<dots> = Fin (lo + real (k - 1) * ((hi - lo) / real (k - 1)))"
    using assms k by simp
  also have "\<dots> = Fin hi" using k by simp
  finally show "last ts = Fin hi" .
qed

lemma py_min_fin:
  assumes "list_all is_fin xs" "xs \<noteq> []"
  shows "\<exists>lo. py_min xs = Inr (Fin lo) \<and> list_all (\<lambda>v. fle (Fin lo) v) xs \<and> Fin lo \<in> set xs"
proof -
  have fold: "\<exists>lo. foldl (\<lambda>m v. if fless v m then v else m) (Fin a) ys = Fin lo
                \<and> lo \<le> a \<and> list_all (\<lambda>v. fle (Fin lo) v) ys \<and> Fin lo \<in> set (Fin a # ys)"
    if "list_all is_fin ys" for a ys
    using that
  proof (induction ys arbitrary: a)
    case Nil
    then show ?case by simp
  next
    case (Cons y ys)
    then obtain b where b: "y = Fin b" by (cases y) simp_all
    from Cons.prems have ys: "list_all is_fin ys" by simp
    from Cons.IH[OF ys, of "if b < a then b else a"] obtain lo where
      "foldl (\<lambda>m v. if fless v m then v else m) (Fin (if b < a then b else a)) ys = Fin lo"
      "lo \<le> (if b < a then b else a)" "list_all (\<lambda>v. fle (Fin lo) v) ys"
      "Fin lo \<in> set (Fin (if b < a then b else a) # ys)"
      by blast
    then show ?case
      using b by (auto simp: fle_def split: if_splits)
  qed
  from assms obtain y ys where xs: "xs = y # ys" by (cases xs) simp_all
  with assms obtain a where a: "y = Fin a" by (cases y) simp_all
  from assms xs have "list_all is_fin ys" by simp
  from fold[OF this, of a] show ?thesis
    using xs a by (auto simp: py_min_def fle_def)
qed

lemma py_max_fin:
  assumes "list_all is_fin xs" "xs \<noteq> []"
  shows "\<exists>hi. py_max xs = Inr (Fin hi) \<and> list_all (\<lambda>v. fle v (Fin hi)) xs \<and> Fin hi \<in> set xs"
proof -
  have fold: "\<exists>hi. foldl (\<lambda>m v. if fless m v then v else m) (Fin a) ys = Fin hi
                \<and> a \<le> hi \<and> list_all (\<lambda>v. fle v (Fin hi)) ys \<and> Fin hi \<in> set (Fin a # ys)"
    if "list_all is_fin ys" for a ys
    using that
  proof (induction ys arbitrary: a)
    case Nil
    then show ?case by simp
  next
    case (Cons y ys)
    then obtain b where b: "y = Fin b" by (cases y) simp_all
    from Cons.prems have ys: "list_all is_fin ys" by simp
    from Cons.IH[OF ys, of "if a < b then b else a"] obtain hi where
      "foldl (\<lambda>m v. if fless m v then v else m) (Fin (if a < b then b else a)) ys = Fin hi"
      "(if a < b then b else a) \<le> hi" "list_all (\<lambda>v. fle v (Fin hi)) ys"
      "Fin hi \<in> set (Fin (if a < b then b else a) # ys)"
      by blast
    then show ?case
      using b by (auto simp: fle_def split: if_splits)
  qed
  from assms obtain y ys where xs: "xs = y # ys" by (cases xs) simp_all
  with assms obtain a where a: "y = Fin a" by (cases y) simp_all
  from assms xs have "list_all is_fin ys" by simp
  from fold[OF this, of a] show ?thesis
    using xs a by (auto simp: py_max_def fle_def)
qed

lemma frontier_curve_entries_aux:
  assumes "frontier_curve minimize R ts (fr, fw) = Inr (fr', fw')"
  shows "length fr' = length fr + length ts
         \<and> (\<forall>i<length ts. \<exists>res. solve_target minimize R (ts ! i) = Inr res
                \<and> ((fr' ! (length fr + i) = None) = (\<not> success res)))
         \<and> take (length fr) fr' = fr"
  using assms
proof (induction ts arbitrary: fr fw)
  case Nil
  then show ?case by simp
next
  case (Cons t ts)
  from Cons.prems obtain res where res: "solve_target minimize R t = Inr res"
    by (auto split: sum.splits)
  obtain x fw1 where
    rec: "frontier_curve minimize R ts (fr @ [x], fw1) = Inr (fr', fw')"
    and x: "(x = None) = (\<not> success res)"
  proof (cases "success res")
    case True
    from Cons.prems res True obtain m where
      c: "calculate_portfolio_metrics (x_res res) R = Inr m"
      by (cases "calculate_portfolio_metrics (x_res res) R") simp_all
    with Cons.prems res True have
      m: "frontier_curve minimize R ts (fr @ [Some (risk m)], fw @ [Some (x_res res)])
            = Inr (fr', fw')"
      by simp
    show ?thesis by (rule that[OF m]) (simp add: True)
  next
    case False
    with Cons.prems res have
      n: "frontier_curve minimize R ts (fr @ [None], fw @ [None]) = Inr (fr', fw')"
      by simp
    show ?thesis by (rule that[OF n]) (simp add: False)
  qed
  from Cons.IH[OF rec] have
    len: "length fr' = Suc (length fr) + length ts"
    and ent: "\<forall>i<length ts. \<exists>res. solve_target minimize R (ts ! i) = Inr res
                \<and> ((fr' ! (Suc (length fr) + i) = None) = (\<not> success res))"
    and tk: "take (Suc (length fr)) fr' = fr @ [x]"
    by simp_all
  note pre = take_snoc_prefix[OF tk]
  have "\<exists>r. solve_target minimize R ((t # ts) ! i) = Inr r
          \<and> ((fr' ! (length fr + i) = None) = (\<not> success r))" if "i < length (t # ts)" for i
  proof (cases i)
    case 0
    with res x pre(2) show ?thesis by simp
  next
    case (Suc j)
    with that ent show ?thesis by simp
  qed
  with len pre(1) show ?case by simp
qed

lemma frontier_curve_total:
  assumes "\<And>t. \<exists>res. solve_target minimize R t = Inr res
               \<and> (success res \<longrightarrow> (\<exists>m. calculate_portfolio_metrics (x_res res) R = Inr m))"
  shows "\<exists>out. frontier_curve minimize R ts acc = Inr out"
proof (induction ts arbitrary: acc)
  case Nil
  then show ?case by simp
next
  case (Cons t ts)
  obtain fr fw where acc: "acc = (fr, fw)" by (cases acc)
  from assms[of t] obtain res where res: "solve_target minimize R t = Inr res"
    and ok: "success res \<longrightarrow> (\<exists>m. calculate_portfolio_metrics (x_res res) R = Inr m)"
    by blast
  show ?case
  proof (cases "success res")
    case True
    with ok obtain m where "calculate_portfolio_metrics (x_res res) R = Inr m" by blast
    with res True acc show ?thesis
      using Cons.IH[of "(fr @ [Some (risk m)], fw @ [Some (x_res res)])"] by simp
  next
    case False
    with res acc show ?thesis
      using Cons.IH[of "(fr @ [None], fw @ [None])"] by simp
  qed
qed

lemma generate_parts:
  assumes "generate_efficient_frontier rng minimize R n s = (Inr fd, s')"
  shows "\<exists>cl lo hi fw.
           random_portfolios rng R (length R) 1000 empty_cloud (np_seed rng 42) = (Inr cl, s')
         \<and> cloud_returns fd = random_returns cl
         \<and> cloud_risks fd = random_risks cl
         \<and> cloud_sharpes fd = random_sharpes cl
         \<and> py_min (random_returns cl) = Inr lo
         \<and> py_max (random_returns cl) = Inr hi
         \<and> np_linspace lo hi n = Inr (frontier_returns fd)
         \<and> frontier_curve minimize R (frontier_returns fd) ([], []) = Inr (frontier_risks_out fd, fw)"
  using assms
  unfolding generate_efficient_frontier_def Let_def
  by (auto split: prod.splits sum.splits)

text \<open>
  For a return matrix with at least one row and draws as \<open>np.random.random\<close> makes
  them, the returns of the cloud in the result are real numbers.
\<close>

lemma generate_cloud_returns_finite:
  assumes "df_wf R" "0 < nrows R"
    and "list_all (unit_draw (length R)) (draws rng (length R) 1000 (np_seed rng 42))"
    and "generate_efficient_frontier rng minimize R n s = (Inr fd, s')"
  shows "list_all is_fin (cloud_returns fd)"
proof -
  from generate_parts[OF assms(4)] obtain cl where
    rp: "random_portfolios rng R (length R) 1000 empty_cloud (np_seed rng 42) = (Inr cl, s')"
    and cr: "cloud_returns fd = random_returns cl"
    by blast
  have "list_all is_fin (random_returns empty_cloud)"
    by (simp add: empty_cloud_def)
  from random_portfolios_returns_finite[OF assms(1-3) this rp] cr show ?thesis
    by simp
qed

subsection \<open>The frontier of the example\<close>

lemma py_min_example: "py_min (Fin (63/2) # replicate k (Fin (441/10))) = Inr (Fin (63/2))"
proof -
  have "foldl (\<lambda>m v. if fless v m then v else m) (Fin (63/2)) (replicate k (Fin (441/10))) = Fin (63/2)"
    by (induction k) simp_all
  then show ?thesis by (simp add: py_min_def)
qed

lemma py_max_example: "py_max (Fin (63/2) # replicate (Suc k) (Fin (441/10))) = Inr (Fin (441/10))"
proof -
  have "foldl (\<lambda>m v. if fless m v then v else m) (Fin (441/10)) (replicate k (Fin (441/10))) = Fin (441/10)"
    by (induction k) simp_all
  then show ?thesis by (simp add: py_max_def)
qed

lemma py_max_example_999: "py_max (Fin (63/2) # replicate 999 (Fin (441/10))) = Inr (Fin (441/10))"
proof -
  have k2: "(999::nat) = Suc 998" by simp
  show ?thesis unfolding k2 by (rule py_max_example)
qed

lemma linspace_example:
  "np_linspace (Fin (63/2)) (Fin (441/10)) 3 = Inr [Fin (63/2), Fin (189/5), Fin (441/10)]"
  by (simp add: np_linspace_def Let_def fsub_def upt_conv_Cons)

lemma optimize_example:
  "optimize_portfolio checking_minimizer sample_returns ''sharpe'' = Inr (Some [Fin (1/2), Fin (1/2)])"
  "optimize_portfolio checking_minimizer sample_returns ''min_risk'' = Inr (Some [Fin (1/2), Fin (1/2)])"
  by (simp_all add: optimize_portfolio_def checking_minimizer_def sample_wf Let_def
        sum_minus_one_def np_sum_def fsub_def numeral_2_eq_2)

lemma solve_target_example:
  "solve_target checking_minimizer sample_returns (Fin t)
     = Inr \<lparr>success = (t = 189/5), x_res = [Fin (1/2), Fin (1/2)]\<rparr>"
  by (simp add: solve_target_def checking_minimizer_def sample_wf Let_def frontier_constraints_def
        sum_minus_one_def np_sum_def fsub_def numeral_2_eq_2 sample_metrics)

lemma solve_target_checking:
  "solve_target checking_minimizer sample_returns t
     = Inr \<lparr>success = (fsub (Fin (189/5)) t = Fin 0), x_res = [Fin (1/2), Fin (1/2)]\<rparr>"
  by (simp add: solve_target_def checking_minimizer_def sample_wf Let_def frontier_constraints_def
        sum_minus_one_def np_sum_def fsub_def numeral_2_eq_2 sample_metrics)

lemma frontier_curve_example:
  "frontier_curve checking_minimizer sample_returns [Fin (63/2), Fin (189/5), Fin (441/10)] ([], [])
     = Inr ([None, Some (Fin 6), None], [None, Some [Fin (1/2), Fin (1/2)], None])"
  by (simp add: solve_target_example sample_metrics)

lemma generate_example:
  "generate_efficient_frontier example_generator checking_minimizer sample_returns 3 s =
     (Inr \<lparr>cloud_returns = Fin (63/2) # replicate 999 (Fin (441/10)),
           cloud_risks = Fin 6 # replicate 999 (Fin 6),
           cloud_sharpes = Fin (17/4) # replicate 999 (Fin (127/20)),
           frontier_returns = [Fin (63/2), Fin (189/5), Fin (441/10)],
           frontier_risks_out = [None, Some (Fin 6), None],
           max_sharpe = \<lparr>p_weights = [Fin (1/2), Fin (1/2)],
                          p_metrics = \<lparr>return = Fin (189/5), risk = Fin 6, sharpe = Fin (53/10)\<rparr>\<rparr>,
           min_risk = \<lparr>p_weights = [Fin (1/2), Fin (1/2)],
                        p_metrics = \<lparr>return = Fin (189/5), risk = Fin 6, sharpe = Fin (53/10)\<rparr>\<rparr>\<rparr>,
      1000)"
proof -
  have k: "(1000::nat) = Suc 999" by simp
  have k2: "(999::nat) = Suc 998" by simp
  have cl: "random_portfolios example_generator sample_returns 2 1000 empty_cloud 0 =
     (Inr \<lparr>random_weights = [Fin (3/4), Fin (1/4)] # replicate 999 [Fin (1/4), Fin (3/4)],
           random_returns = Fin (63/2) # replicate 999 (Fin (441/10)),
           random_risks = Fin 6 # replicate 999 (Fin 6),
           random_sharpes = Fin (17/4) # replicate 999 (Fin (127/20))\<rparr>, 1000)"
    unfolding k by (rule example_cloud)
  have mx: "py_max (Fin (63/2) # replicate 999 (Fin (441/10))) = Inr (Fin (441/10))"
    unfolding k2 by (rule py_max_example)
  show ?thesis
    unfolding generate_efficient_frontier_def
    by (simp only: sample_wf example_seed cl Let_def prod.case sum.case cloud.simps
          optimize_example metrics_of_result_def option.case sample_metrics
          py_min_example mx linspace_example frontier_curve_example)
qed

lemma generate_example_frontier:
  "generate_efficient_frontier example_generator checking_minimizer sample_returns 3 s
     = (Inr example_frontier, 1000)"
  unfolding example_frontier_def by (rule generate_example)

lemma generate_example_total:
  assumes "0 \<le> n"
  shows "\<exists>fd. generate_efficient_frontier example_generator checking_minimizer sample_returns n s
           = (Inr fd, 1000)"
proof -
  from np_linspace_total[OF assms] obtain ts where
    ts: "np_linspace (Fin (63/2)) (Fin (441/10)) n = Inr ts" by blast
  have "\<exists>res. solve_target checking_minimizer sample_returns t = Inr res
          \<and> (success res \<longrightarrow> (\<exists>m. calculate_portfolio_metrics (x_res res) sample_returns = Inr m))" for t
    by (simp add: solve_target_checking sample_metrics)
  from frontier_curve_total[of checking_minimizer sample_returns ts "([], [])", OF this]
  obtain fr fw where fc: "frontier_curve checking_minimizer sample_returns ts ([], []) = Inr (fr, fw)"
    by (metis surj_pair)
  show ?thesis
    unfolding generate_efficient_frontier_def
    by (simp only: sample_wf example_seed example_cloud_1000 Let_def prod.case sum.case cloud.simps
          optimize_example metrics_of_result_def option.case sample_metrics
          py_min_example py_max_example_999 ts fc) blast
qed

subsection \<open>Entries and order of the curve\<close>

text \<open>
  Claim C3. Whenever \<open>generate_efficient_frontier\<close> returns a result for
  \<open>n_portfolios\<close> curve points, the curve has exactly that many target returns and that
  many risk entries; the risk entry of a target is null exactly when the solver reports no
  success for that target. When the returns of the random cloud are real numbers, the
  target returns ascend, start at the least return of the cloud and, for two or more
  points, end at its greatest.
\<close>

theorem frontier_curve_entries:
  assumes "generate_efficient_frontier rng minimize R n s = (Inr fd, s')"
  shows "0 \<le> n \<and> length (frontier_returns fd) = nat n \<and> length (frontier_risks_out fd) = nat n
       \<and> (\<forall>i<nat n. \<exists>res. solve_target minimize R (frontier_returns fd ! i) = Inr res
              \<and> ((frontier_risks_out fd ! i = None) = (\<not> success res)))
       \<and> (list_all is_fin (cloud_returns fd) \<longrightarrow>
            sorted_wrt fle (frontier_returns fd)
          \<and> (\<exists>lo hi. py_min (cloud_returns fd) = Inr (Fin lo) \<and> py_max (cloud_returns fd) = Inr (Fin hi)
                \<and> list_all (\<lambda>v. fle (Fin lo) v \<and> fle v (Fin hi)) (cloud_returns fd)
                \<and> (0 < n \<longrightarrow> hd (frontier_returns fd) = Fin lo)
                \<and> (1 < n \<longrightarrow> last (frontier_returns fd) = Fin hi)))"
proof -
  from generate_parts[OF assms] obtain cl lo hi fw where
    rp: "random_portfolios rng R (length R) 1000 empty_cloud (np_seed rng 42) = (Inr cl, s')"
    and cr: "cloud_returns fd = random_returns cl"
    and lo: "py_min (random_returns cl) = Inr lo"
    and hi: "py_max (random_returns cl) = Inr hi"
    and ls: "np_linspace lo hi n = Inr (frontier_returns fd)"
    and fc: "frontier_curve minimize R (frontier_returns fd) ([], []) = Inr (frontier_risks_out fd, fw)"
    by blast
  from np_linspace_length[OF ls] have n: "0 \<le> n" and len: "length (frontier_returns fd) = nat n"
    by simp_all
  from frontier_curve_entries_aux[OF fc] have
    rlen: "length (frontier_risks_out fd) = length (frontier_returns fd)"
    and ent: "\<forall>i<length (frontier_returns fd). \<exists>res.
                 solve_target minimize R (frontier_returns fd ! i) = Inr res
               \<and> ((frontier_risks_out fd ! i = None) = (\<not> success res))"
    by simp_all
  have ord: "sorted_wrt fle (frontier_returns fd)
          \<and> (\<exists>lo hi. py_min (cloud_returns fd) = Inr (Fin lo) \<and> py_max (cloud_returns fd) = Inr (Fin hi)
                \<and> list_all (\<lambda>v. fle (Fin lo) v \<and> fle v (Fin hi)) (cloud_returns fd)
                \<and> (0 < n \<longrightarrow> hd (frontier_returns fd) = Fin lo)
                \<and> (1 < n \<longrightarrow> last (frontier_returns fd) = Fin hi))"
    if fin: "list_all is_fin (cloud_returns fd)"
  proof -
    from random_portfolios_lengths[OF rp] have ne: "cloud_returns fd \<noteq> []"
      by (auto simp: cr empty_cloud_def)
    from py_min_fin[OF fin ne] obtain a where
      a: "py_min (cloud_returns fd) = Inr (Fin a)"
      and amin: "list_all (\<lambda>v. fle (Fin a) v) (cloud_returns fd)"
      and ain: "Fin a \<in> set (cloud_returns fd)"
      by blast
    from py_max_fin[OF fin ne] obtain b where
      b: "py_max (cloud_returns fd) = Inr (Fin b)"
      and bmax: "list_all (\<lambda>v. fle v (Fin b)) (cloud_returns fd)"
      by blast
    from ain bmax have ab: "a \<le> b"
      by (auto simp: list_all_iff fle_def)
    from a b lo hi cr have "lo = Fin a" "hi = Fin b" by simp_all
    with ls have ts: "frontier_returns fd
        = map (\<lambda>i. Fin (a + real i * ((b - a) / real (nat n - 1)))) [0..<nat n]"
      using np_linspace_Fin by simp
    have "sorted_wrt fle (frontier_returns fd)"
      by (subst ts) (rule linspace_sorted[OF ab], simp)
    moreover have "list_all (\<lambda>v. fle (Fin a) v \<and> fle v (Fin b)) (cloud_returns fd)"
      using amin bmax by (simp add: list_all_iff)
    moreover have "0 < n \<longrightarrow> hd (frontier_returns fd) = Fin a"
      using linspace_ends(1)[OF ts] by simp
    moreover have "1 < n \<longrightarrow> last (frontier_returns fd) = Fin b"
      using linspace_ends(2)[OF ts] by simp
    ultimately show ?thesis using a b by blast
  qed
  from n len rlen ent ord show ?thesis by simp
qed

theorem frontier_curve_entries_witness:
  "generate_efficient_frontier example_generator checking_minimizer sample_returns 3 0
     = (Inr example_frontier, 1000)
   \<and> length (frontier_returns example_frontier) = 3
   \<and> length (frontier_risks_out example_frontier) = 3
   \<and> frontier_risks_out example_frontier = [None, Some (Fin 6), None]
   \<and> list_all is_fin (cloud_returns example_frontier)
   \<and> sorted_wrt fle (frontier_returns example_frontier)
   \<and> py_min (cloud_returns example_frontier) = Inr (hd (frontier_returns example_frontier))
   \<and> py_max (cloud_returns example_frontier) = Inr (last (frontier_returns example_frontier))"
proof -
  have fin: "list_all is_fin (cloud_returns example_frontier)"
    by (simp add: example_frontier_def list_all_iff)
  from frontier_curve_entries[OF generate_example_frontier[of 0]] fin
  have "length (frontier_returns example_frontier) = nat 3"
    and "length (frontier_risks_out example_frontier) = nat 3"
    and "sorted_wrt fle (frontier_returns example_frontier)"
    and "\<exists>lo hi. py_min (cloud_returns example_frontier) = Inr (Fin lo)
           \<and> py_max (cloud_returns example_frontier) = Inr (Fin hi)
           \<and> ((0::int) < 3 \<longrightarrow> hd (frontier_returns example_frontier) = Fin lo)
           \<and> ((1::int) < 3 \<longrightarrow> last (frontier_returns example_frontier) = Fin hi)"
    by blast+
  then show ?thesis
    using fin generate_example_frontier[of 0] by (auto simp: example_frontier_def)
qed

section \<open>Analysis requests\<close>

lemma df_select_length: "df_select df names = Inr R \<Longrightarrow> length R = length names"
  by (induction names arbitrary: R) (auto split: option.splits sum.splits)

text \<open>
  A weight vector that \<open>optimize_portfolio\<close> returns is the point of a successful solver
  call from equal weights, with the bounds 0 and 1 for every weight and the constraint that
  the weights sum to 1; nothing is changed on the way.
\<close>

lemma optimize_portfolio_Some:
  assumes "optimize_portfolio minimize R t = Inr (Some w)"
  shows "\<exists>f res. minimize f (replicate (length R) (Fin (1 / real (length R))))
                   (replicate (length R) (0, 1)) [(''eq'', sum_minus_one)] = Inr res
                 \<and> success res \<and> w = x_res res"
  using assms
  by (auto simp: optimize_portfolio_def Let_def split: if_splits sum.splits)

lemma within_bounds_unit:
  "within_bounds (replicate n (0, 1)) w \<Longrightarrow> list_all in_unit w"
proof (induction w arbitrary: n)
  case Nil
  then show ?case by simp
next
  case (Cons c w)
  then obtain k where n: "n = Suc k" by (cases n) (simp_all add: within_bounds_def)
  with Cons.prems have c: "in_bound (0, 1) c" and rest: "within_bounds (replicate k (0, 1)) w"
    by (simp_all add: within_bounds_def)
  from c have "in_unit c" by (cases c) simp_all
  with Cons.IH[OF rest] show ?case by simp
qed

lemma sum_constraint_met:
  assumes "constraint_met tol w (''eq'', sum_minus_one)"
  shows "\<exists>s. np_sum w = Fin s \<and> \<bar>s - 1\<bar> \<le> tol"
proof (cases "np_sum w")
  case (Fin s)
  with assms show ?thesis by (simp add: sum_minus_one_def fsub_def)
qed (insert assms, simp_all add: sum_minus_one_def fsub_def)

subsection \<open>Weights of the optimizer\<close>

text \<open>
  Claim C2. When the solver keeps to what SLSQP is taken to guarantee on success, with the
  tolerance \<open>10\<^sup>-\<^sup>6\<close>, every weight vector that \<open>optimize_portfolio\<close> returns, for
  either objective, sums to 1 within \<open>10\<^sup>-\<^sup>6\<close> and has every weight between 0 and 1.
\<close>

theorem optimizer_weights_feasible:
  assumes "slsqp_contract (1 / 10 ^ 6) minimize"
    and "optimize_portfolio minimize R t = Inr (Some w)"
  shows "(\<exists>s. np_sum w = Fin s \<and> \<bar>s - 1\<bar> \<le> 1 / 10 ^ 6) \<and> list_all in_unit w"
proof -
  from optimize_portfolio_Some[OF assms(2)] obtain f res where
    call: "minimize f (replicate (length R) (Fin (1 / real (length R))))
             (replicate (length R) (0, 1)) [(''eq'', sum_minus_one)] = Inr res"
    and ok: "success res" and w: "w = x_res res"
    by blast
  from assms(1) call ok have
    "within_bounds (replicate (length R) (0, 1)) (x_res res)
     \<and> list_all (constraint_met (1 / 10 ^ 6) (x_res res)) [(''eq'', sum_minus_one)]"
    unfolding slsqp_contract_def by blast
  then have b: "within_bounds (replicate (length R) (0, 1)) w"
    and c: "constraint_met (1 / 10 ^ 6) w (''eq'', sum_minus_one)"
    by (simp_all add: w)
  from sum_constraint_met[OF c] within_bounds_unit[OF b] show ?thesis by simp
qed

lemma feasible_start_contract: "0 \<le> tol \<Longrightarrow> slsqp_contract tol feasible_start_minimizer"
proof -
  assume tol: "0 \<le> tol"
  have mono: "constraint_met 0 v c \<Longrightarrow> constraint_met tol v c" for v c
    using tol by (cases c) (auto split: sum.splits fval.splits if_splits)
  show ?thesis
    unfolding slsqp_contract_def feasible_start_minimizer_def
    by (auto simp: list_all_iff mono)
qed

theorem optimizer_weights_feasible_witness:
  "slsqp_contract (1 / 10 ^ 6) feasible_start_minimizer
   \<and> optimize_portfolio feasible_start_minimizer sample_returns ''sharpe''
       = Inr (Some [Fin (1/2), Fin (1/2)])
   \<and> np_sum [Fin (1/2), Fin (1/2)] = Fin 1
   \<and> list_all in_unit [Fin (1/2), Fin (1/2)]"
proof -
  have c: "slsqp_contract (1 / 10 ^ 6) feasible_start_minimizer"
    by (rule feasible_start_contract) simp
  have o: "optimize_portfolio feasible_start_minimizer sample_returns ''sharpe''
       = Inr (Some [Fin (1/2), Fin (1/2)])"
    by (simp add: optimize_portfolio_def feasible_start_minimizer_def sample_wf Let_def
          within_bounds_def sum_minus_one_def np_sum_def fsub_def numeral_2_eq_2)
  from optimizer_weights_feasible[OF c o] c o show ?thesis
    by (simp add: np_sum_def)
qed

lemma optimize_portfolio_failure:
  assumes "minimize (if t = ''sharpe'' then negative_sharpe R else portfolio_risk R)
             (replicate (length R) (Fin (1 / real (length R))))
             (replicate (length R) (0, 1)) [(''eq'', sum_minus_one)] = Inr res"
    and "\<not> success res" and "t = ''sharpe'' \<or> t = ''min_risk''" and "R \<noteq> []"
  shows "optimize_portfolio minimize R t = Inr None"
  using assms by (auto simp: optimize_portfolio_def Let_def)

lemma analyze_portfolio_valid_request:
  assumes "2 \<le> length sel" "\<not> df_empty prepared" "df_select prepared sel = Inr R"
    and "stocks data = Some sel" "optimization data = Some tag"
  shows "analyze_portfolio rng minimize prepared data s =
     (if tag = ''max_sharpe'' then
        (case optimize_portfolio minimize R ''sharpe'' of
           Inl e \<Rightarrow> (ExceptionCaught e, s)
         | Inr weights \<Rightarrow> analyze_with_weights rng minimize R sel weights s)
      else if tag = ''min_risk'' then
        (case optimize_portfolio minimize R ''min_risk'' of
           Inl e \<Rightarrow> (ExceptionCaught e, s)
         | Inr weights \<Rightarrow> analyze_with_weights rng minimize R sel weights s)
      else if tag = ''custom'' then
        (let weights = map Fin (raw_weights
                (case weights_in data of None \<Rightarrow> Map.empty | Some d \<Rightarrow> d) sel)
         in if np_sum weights = Fin 0
            then (Failure ''Custom weights must sum to a positive value'', s)
            else analyze_with_weights rng minimize R sel (Some (normalize_weights weights)) s)
      else analyze_with_weights rng minimize R sel
             (Some (replicate (length sel) (Fin (1 / real (length sel))))) s)"
proof -
  from assms(1) have len: "\<not> length sel < 2" by simp
  show ?thesis
    unfolding analyze_portfolio_def
    by (simp only: assms(2-5) len option.case Let_def if_False sum.case)
qed

lemma analyze_with_weights_None:
  "analyze_with_weights rng minimize R sel None s
     = (Failure ''Optimization failed or invalid optimization type'', s)"
  by (simp add: analyze_with_weights_def)

lemma analyze_with_weights_Some:
  "fst (analyze_with_weights rng minimize R sel (Some w) s)
     \<noteq> Failure ''Optimization failed or invalid optimization type''
   \<and> (\<forall>a. fst (analyze_with_weights rng minimize R sel (Some w) s) = Success a \<longrightarrow>
         portfolio_weights a = zip sel w)"
  by (auto simp: analyze_with_weights_def split: sum.splits prod.splits)

subsection \<open>Requests on the example\<close>

lemma sample_select: "df_select sample_returns [''RELIANCE'', ''TCS''] = Inr sample_returns"
  by (simp add: sample_returns_def)

lemma sample_not_empty: "\<not> df_empty sample_returns"
  by (simp add: df_empty_def sample_wf) (simp add: sample_returns_def)

lemma example_request_fields:
  "stocks (example_request tag wi) = Some [''RELIANCE'', ''TCS'']"
  "optimization (example_request tag wi) = Some tag"
  "weights_in (example_request tag wi) = Some wi"
  by (simp_all add: example_request_def)

lemma analyze_with_weights_example:
  assumes "calculate_portfolio_metrics w sample_returns = Inr m"
  shows "response_weights (fst (analyze_with_weights example_generator checking_minimizer
            sample_returns sel (Some w) s)) = Some (zip sel w)"
proof -
  have "0 \<le> n_portfolios_default" by (simp add: n_portfolios_default_def)
  from generate_example_total[OF this, of s] obtain fd where
    "generate_efficient_frontier example_generator checking_minimizer sample_returns
       n_portfolios_default s = (Inr fd, 1000)" by blast
  with assms show ?thesis
    by (simp add: analyze_with_weights_def)
qed

lemma sample_shape_metrics:
  "\<exists>m. calculate_portfolio_metrics [Fin a, Fin b] sample_returns = Inr m"
  using calculate_shape_ok[of "[Fin a, Fin b]" sample_returns] by (auto simp: sample_wf)

lemma failing_call:
  "failing_minimizer f x0 b c = Inr \<lparr>success = False, x_res = x0\<rparr>"
  by (simp add: failing_minimizer_def)

subsection \<open>A solver that does not converge\<close>

text \<open>
  Claim C5 says that \<open>optimize_portfolio\<close> surfaces an error that carries the name
  of the objective when the solver does not converge. It returns \<open>None\<close> instead, and
  \<open>analyze_portfolio\<close> answers with a fixed message that names no objective.
\<close>

theorem failed_optimization_counterexample:
  "optimize_portfolio failing_minimizer sample_returns ''sharpe'' = Inr None
   \<and> analyze_portfolio example_generator failing_minimizer sample_returns
       (example_request ''max_sharpe'' Map.empty) 0
     = (Failure ''Optimization failed or invalid optimization type'', 0)"
proof -
  have two: "2 \<le> length [''RELIANCE'', ''TCS'']" by simp
  have opt: "optimize_portfolio failing_minimizer sample_returns ''sharpe'' = Inr None"
    by (simp add: optimize_portfolio_def failing_call sample_wf Let_def)
  then show ?thesis
    by (simp add: analyze_portfolio_valid_request[OF two sample_not_empty sample_select
            example_request_fields(1,2)] analyze_with_weights_None)
qed

text \<open>
  Claim C5, amended. When the solver reports no success for the call that
  \<open>optimize_portfolio\<close> makes, \<open>optimize_portfolio\<close> returns \<open>None\<close> and raises
  nothing; a request for the maximal Sharpe ratio or the minimal risk is then answered with
  the failure message "Optimization failed or invalid optimization type", without any
  fallback to equal weights and with the generator untouched.
\<close>

theorem failed_optimization_returns_none:
  assumes "2 \<le> length sel" "\<not> df_empty prepared" "df_select prepared sel = Inr R"
    and "stocks data = Some sel" "optimization data = Some tag"
    and "tag = ''max_sharpe'' \<and> t = ''sharpe'' \<or> tag = ''min_risk'' \<and> t = ''min_risk''"
    and "minimize (if t = ''sharpe'' then negative_sharpe R else portfolio_risk R)
             (replicate (length R) (Fin (1 / real (length R))))
             (replicate (length R) (0, 1)) [(''eq'', sum_minus_one)] = Inr res"
    and "\<not> success res"
  shows "optimize_portfolio minimize R t = Inr None
       \<and> analyze_portfolio rng minimize prepared data s
           = (Failure ''Optimization failed or invalid optimization type'', s)"
proof -
  from df_select_length[OF assms(3)] assms(1) have ne: "R \<noteq> []" by auto
  from assms(6) have t: "t = ''sharpe'' \<or> t = ''min_risk''" by auto
  have opt: "optimize_portfolio minimize R t = Inr None"
    using assms(7,8) t ne by (rule optimize_portfolio_failure[where minimize=minimize and res=res])
  have "analyze_portfolio rng minimize prepared data s
       = (Failure ''Optimization failed or invalid optimization type'', s)"
  proof (cases "tag = ''max_sharpe''")
    case True
    with assms(6) have "t = ''sharpe''" by simp
    with opt True show ?thesis
      by (simp add: analyze_portfolio_valid_request[OF assms(1-5)] analyze_with_weights_None)
  next
    case False
    with assms(6) have "tag = ''min_risk''" "t = ''min_risk''" by simp_all
    with opt show ?thesis
      by (simp add: analyze_portfolio_valid_request[OF assms(1-5)] analyze_with_weights_None)
  qed
  with opt show ?thesis by simp
qed

theorem failed_optimization_returns_none_witness:
  "optimize_portfolio failing_minimizer sample_returns ''min_risk'' = Inr None
   \<and> analyze_portfolio example_generator failing_minimizer sample_returns
       (example_request ''min_risk'' Map.empty) 0
     = (Failure ''Optimization failed or invalid optimization type'', 0)"
proof -
  have two: "2 \<le> length [''RELIANCE'', ''TCS'']" by simp
  have tag: "''min_risk'' = ''max_sharpe'' \<and> ''min_risk'' = ''sharpe''
             \<or> ''min_risk'' = ''min_risk'' \<and> ''min_risk'' = ''min_risk''" by simp
  show ?thesis
    by (rule failed_optimization_returns_none[OF two sample_not_empty sample_select
          example_request_fields(1,2) tag failing_call]) simp
qed

subsection \<open>Custom weights\<close>

text \<open>
  Claim C6 says that custom weights with a negative value are rejected. Only a zero sum
  is: the weights -1 and 3 are accepted and normalized to -1/2 and 3/2.
\<close>

theorem negative_custom_weight_counterexample:
  "response_weights (fst (analyze_portfolio example_generator checking_minimizer sample_returns
       (example_request ''custom'' [''RELIANCE'' \<mapsto> -1, ''TCS'' \<mapsto> 3]) 0))
     = Some [(''RELIANCE'', Fin (-1/2)), (''TCS'', Fin (3/2))]"
proof -
  have two: "2 \<le> length [''RELIANCE'', ''TCS'']" by simp
  obtain m where m: "calculate_portfolio_metrics [Fin (-1/2), Fin (3/2)] sample_returns = Inr m"
    using sample_shape_metrics by blast
  have "analyze_portfolio example_generator checking_minimizer sample_returns
       (example_request ''custom'' [''RELIANCE'' \<mapsto> -1, ''TCS'' \<mapsto> 3]) 0
      = analyze_with_weights example_generator checking_minimizer sample_returns
          [''RELIANCE'', ''TCS''] (Some [Fin (-1/2), Fin (3/2)]) 0"
    by (simp add: analyze_portfolio_valid_request[OF two sample_not_empty sample_select
            example_request_fields(1,2)] example_request_fields(3) raw_weights_def np_sum_def
          normalize_weights_def Let_def)
  then show ?thesis
    using analyze_with_weights_example[OF m] by simp
qed

text \<open>
  Claim C6, amended. For a request with the custom strategy, at least two selected stocks
  and data for each of them, whose raw weights are at most 100 whole numbers of magnitude
  at most \<open>10\<^sup>6\<close>: when the raw weights sum to zero, the request is rejected with
  the message "Custom weights must sum to a positive value", whatever the solver and with
  the generator untouched; otherwise, negative weights included, each raw weight is divided
  by the sum, the analysis goes on with these weights, and up to rounding they sum to 1.
\<close>

theorem custom_weights_normalized:
  assumes "2 \<le> length sel" "\<not> df_empty prepared" "df_select prepared sel = Inr R"
    and "stocks data = Some sel" "optimization data = Some ''custom''" "weights_in data = Some wi"
    and "exact_weights (raw_weights wi sel)"
  shows "(sum_list (raw_weights wi sel) = 0 \<longrightarrow>
            analyze_portfolio rng minimize prepared data s
              = (Failure ''Custom weights must sum to a positive value'', s))
       \<and> (sum_list (raw_weights wi sel) \<noteq> 0 \<longrightarrow>
            analyze_portfolio rng minimize prepared data s
              = analyze_with_weights rng minimize R sel
                  (Some (map (\<lambda>v. Fin (v / sum_list (raw_weights wi sel))) (raw_weights wi sel))) s
          \<and> np_sum (map (\<lambda>v. Fin (v / sum_list (raw_weights wi sel))) (raw_weights wi sel)) = Fin 1)"
proof -
  let ?raw = "raw_weights wi sel"
  have eq: "analyze_portfolio rng minimize prepared data s =
       (if np_sum (map Fin ?raw) = Fin 0
        then (Failure ''Custom weights must sum to a positive value'', s)
        else analyze_with_weights rng minimize R sel (Some (normalize_weights (map Fin ?raw))) s)"
    by (simp add: analyze_portfolio_valid_request[OF assms(1-5)] assms(6) Let_def)
  have norm: "normalize_weights (map Fin ?raw) = map (\<lambda>v. Fin (v / sum_list ?raw)) ?raw"
    if "sum_list ?raw \<noteq> 0"
    using that by (simp add: normalize_weights_def np_sum_Fin)
  have sum1: "np_sum (map (\<lambda>v. Fin (v / sum_list ?raw)) ?raw) = Fin 1" if "sum_list ?raw \<noteq> 0"
    using that np_sum_Fin[of "map (\<lambda>v. v / sum_list ?raw) ?raw"]
    by (simp add: comp_def sum_list_divide)
  show ?thesis
    using norm sum1 by (simp add: eq np_sum_Fin)
qed

theorem custom_weights_normalized_witness:
  "exact_weights (raw_weights [''RELIANCE'' \<mapsto> 0, ''TCS'' \<mapsto> 0] [''RELIANCE'', ''TCS''])
   \<and> exact_weights (raw_weights [''RELIANCE'' \<mapsto> 1, ''TCS'' \<mapsto> 3] [''RELIANCE'', ''TCS''])
   \<and> analyze_portfolio example_generator checking_minimizer sample_returns
       (example_request ''custom'' [''RELIANCE'' \<mapsto> 0, ''TCS'' \<mapsto> 0]) 0
     = (Failure ''Custom weights must sum to a positive value'', 0)
   \<and> response_weights (fst (analyze_portfolio example_generator checking_minimizer sample_returns
       (example_request ''custom'' [''RELIANCE'' \<mapsto> 1, ''TCS'' \<mapsto> 3]) 0))
     = Some [(''RELIANCE'', Fin (1/4)), (''TCS'', Fin (3/4))]"
proof -
  have two: "2 \<le> length [''RELIANCE'', ''TCS'']" by simp
  note inst = custom_weights_normalized[OF two sample_not_empty sample_select
      example_request_fields(1,2,3), where rng = example_generator
      and minimize = checking_minimizer and s = 0]
  have raw0: "raw_weights [''RELIANCE'' \<mapsto> 0, ''TCS'' \<mapsto> 0] [''RELIANCE'', ''TCS''] = [0, 0]"
    and raw1: "raw_weights [''RELIANCE'' \<mapsto> 1, ''TCS'' \<mapsto> 3] [''RELIANCE'', ''TCS''] = [1, 3]"
    by (simp_all add: raw_weights_def)
  have ex0: "exact_weights (raw_weights [''RELIANCE'' \<mapsto> 0, ''TCS'' \<mapsto> 0] [''RELIANCE'', ''TCS''])"
    and ex1: "exact_weights (raw_weights [''RELIANCE'' \<mapsto> 1, ''TCS'' \<mapsto> 3] [''RELIANCE'', ''TCS''])"
    by (simp_all add: raw0 raw1 exact_weights_def)
  have a: "analyze_portfolio example_generator checking_minimizer sample_returns
       (example_request ''custom'' [''RELIANCE'' \<mapsto> 0, ''TCS'' \<mapsto> 0]) 0
     = (Failure ''Custom weights must sum to a positive value'', 0)"
    using inst[OF ex0] by (simp add: raw0)
  have b: "analyze_portfolio example_generator checking_minimizer sample_returns
       (example_request ''custom'' [''RELIANCE'' \<mapsto> 1, ''TCS'' \<mapsto> 3]) 0
     = analyze_with_weights example_generator checking_minimizer sample_returns
          [''RELIANCE'', ''TCS''] (Some [Fin (1/4), Fin (3/4)]) 0"
    using inst[OF ex1] by (simp add: raw1)
  show ?thesis
    using analyze_with_weights_example[OF sample_metrics_later] ex0 ex1 by (simp add: a b)
qed

subsection \<open>Unknown strategy tags\<close>

text \<open>
  Claim C9. For a request with at least two selected stocks and data for each of them,
  whose tag is none of \<open>max_sharpe\<close>, \<open>min_risk\<close> and \<open>custom\<close>,
  \<open>analyze_portfolio\<close> goes on with the weight 1/N for each of the N selected stocks,
  exactly as for the tag \<open>equal\<close>: the answer is never the rejection of an invalid
  optimization type, and an analysis it returns reports these weights.
\<close>

theorem unknown_tag_equal_weights:
  assumes "2 \<le> length sel" "\<not> df_empty prepared" "df_select prepared sel = Inr R"
    and "stocks data = Some sel" "optimization data = Some tag"
    and "tag \<noteq> ''max_sharpe''" "tag \<noteq> ''min_risk''" "tag \<noteq> ''custom''"
  shows "analyze_portfolio rng minimize prepared data s
           = analyze_with_weights rng minimize R sel
               (Some (replicate (length sel) (Fin (1 / real (length sel))))) s
       \<and> analyze_portfolio rng minimize prepared data s
           = analyze_portfolio rng minimize prepared (data\<lparr>optimization := Some ''equal''\<rparr>) s
       \<and> fst (analyze_portfolio rng minimize prepared data s)
           \<noteq> Failure ''Optimization failed or invalid optimization type''
       \<and> (\<forall>a. fst (analyze_portfolio rng minimize prepared data s) = Success a \<longrightarrow>
             portfolio_weights a = zip sel (replicate (length sel) (Fin (1 / real (length sel)))))"
proof -
  let ?w = "replicate (length sel) (Fin (1 / real (length sel)))"
  have eq: "analyze_portfolio rng minimize prepared data s
           = analyze_with_weights rng minimize R sel (Some ?w) s"
    using assms(6-8) by (simp add: analyze_portfolio_valid_request[OF assms(1-5)])
  have "stocks (data\<lparr>optimization := Some ''equal''\<rparr>) = Some sel"
    "optimization (data\<lparr>optimization := Some ''equal''\<rparr>) = Some ''equal''"
    using assms(4) by simp_all
  from analyze_portfolio_valid_request[OF assms(1-3) this]
  have eq': "analyze_portfolio rng minimize prepared (data\<lparr>optimization := Some ''equal''\<rparr>) s
           = analyze_with_weights rng minimize R sel (Some ?w) s"
    by simp
  show ?thesis
    using analyze_with_weights_Some[of rng minimize R sel ?w s] by (simp add: eq eq')
qed

theorem unknown_tag_equal_weights_witness:
  "response_weights (fst (analyze_portfolio example_generator checking_minimizer sample_returns
       (example_request ''max_sharp'' Map.empty) 0))
     = Some [(''RELIANCE'', Fin (1/2)), (''TCS'', Fin (1/2))]"
proof -
  have two: "2 \<le> length [''RELIANCE'', ''TCS'']" by simp
  have "analyze_portfolio example_generator checking_minimizer sample_returns
       (example_request ''max_sharp'' Map.empty) 0
     = analyze_with_weights example_generator checking_minimizer sample_returns
          [''RELIANCE'', ''TCS'']
          (Some (replicate (length [''RELIANCE'', ''TCS''])
             (Fin (1 / real (length [''RELIANCE'', ''TCS''])))))  0"
    using unknown_tag_equal_weights[OF two sample_not_empty sample_select
        example_request_fields(1,2), where tag = "''max_sharp''" and rng = example_generator
        and minimize = checking_minimizer and s = 0]
    by simp
  then show ?thesis
    using analyze_with_weights_example[OF sample_metrics] by (simp add: numeral_2_eq_2)
qed

end
